theory Spec2Isabelle
  imports Main "HOL-Library.AList"
begin

section \<open>The collaborators of \<open>solve_product_path.py\<close>\<close>

text \<open>
  The module builds a mixed-integer program for a drone-delivery instance and decodes a
  solver's answer into trips. Customers, hubs, products and locations are objects of
  classes that live elsewhere in the package; the module only compares them, uses them
  as dictionary keys, formats them into names and reads a few attributes. They are
  therefore type parameters \<open>'c\<close>, \<open>'h\<close>, \<open>'p\<close>, \<open>'l\<close>, whose HOL equality stands for the
  objects' \<open>==\<close>, and the attributes read are the fields of the record \<open>objects\<close>:
  \<open>customer.location\<close>, \<open>customer.demand\<close> (a dictionary from product to quantity),
  \<open>hub.location\<close>, \<open>hub.get_available_items(product)\<close> and the \<open>str\<close> of each object
  (used by the f-strings that name the variables). Quantities, distances, coefficients
  and solver values are Python integers, hence \<open>int\<close>.
\<close>

datatype error = KeyError

record ('c, 'h, 'p, 'l) objects =
  customer_location :: "'c \<Rightarrow> 'l"
  customer_demand :: "'c \<Rightarrow> 'p \<rightharpoonup> int"
  customer_str :: "'c \<Rightarrow> string"
  hub_location :: "'h \<Rightarrow> 'l"
  hub_get_available_items :: "'h \<Rightarrow> 'p \<Rightarrow> int"
  hub_str :: "'h \<Rightarrow> string"
  product_str :: "'p \<Rightarrow> string"

record 'l Environment =
  get_distance :: "'l \<Rightarrow> 'l \<Rightarrow> int"

section \<open>Decision variables\<close>

text \<open>
  The four classes \<open>FlightsCustomerHub\<close>, \<open>ProductsMoveCustomerHub\<close>, \<open>FlightsHubHub\<close>
  and \<open>ProductsMoveHubHub\<close> are empty subclasses of \<open>IntegerVariable\<close>. Every instance
  is created in this module, each class always with the same keys in its \<open>data\<close>
  dictionary, so the class and its \<open>data\<close> are one constructor with the values of these
  keys as arguments: \<open>isinstance\<close> is a match on the constructor and
  \<open>variable.data["hub"]\<close> reads an argument. \<open>name\<close> is a one-element Python set
  holding the formatted string.
\<close>

datatype ('c, 'h, 'p) variable_data =
    FlightsCustomerHub 'c 'h
  | ProductsMoveCustomerHub 'c 'h 'p
  | FlightsHubHub 'h 'h
  | ProductsMoveHubHub 'h 'h 'p

text \<open>
  Modelled from the spec: \<open>IntegerVariable\<close> (class not in the sources). Its fields are
  the keyword arguments of the constructor calls of this module; the spec gives a
  variable a lower bound and an optional finite upper bound, so \<open>upper_bound\<close> is \<open>None\<close>
  where a call passes none.
\<close>

record ('c, 'h, 'p) IntegerVariable =
  name :: "string set"
  lower_bound :: int
  upper_bound :: "int option"
  data :: "('c, 'h, 'p) variable_data"

section \<open>Linear expressions, constraints and the model\<close>

text \<open>
  The classes \<open>LinearExpression\<close>, \<open>EqualityConstraint\<close>, \<open>LE_InequalityConstraint\<close> and
  \<open>Model\<close> of \<open>dronedelivery.utils.mip_utils\<close> are not among the sources; this module
  only constructs them. The spec describes a linear expression as a weighted sum of
  decision variables that supports addition, subtraction and scaling, and the two
  constraints as \<open>lhs == rhs\<close> and \<open>lhs \<le> rhs\<close>.
\<close>

text \<open>
  Modelled from the spec: \<open>LinearExpression\<close> (class not in the sources), a weighted sum
  of decision variables, kept as the list of its terms in the order they were added.
  \<open>LinearExpression()\<close> is the empty sum.
\<close>

type_synonym ('c, 'h, 'p) LinearExpression = "(('c, 'h, 'p) IntegerVariable \<times> int) list"

definition LinearExpression :: "('c, 'h, 'p) LinearExpression" where
  "LinearExpression = []"

text \<open>
  Modelled from the spec: \<open>LinearExpression.add_variable\<close> (method not in the sources)
  adds one weighted variable to the sum. The calls of this module that pass no
  coefficient are written with coefficient 1, the weight the spec's formulas give these
  terms.
\<close>

definition add_variable ::
  "('c, 'h, 'p) IntegerVariable \<Rightarrow> int \<Rightarrow> ('c, 'h, 'p) LinearExpression
    \<Rightarrow> ('c, 'h, 'p) LinearExpression" where
  "add_variable variable coefficient le = le @ [(variable, coefficient)]"

text \<open>
  Modelled from the spec: the subtraction \<open>a - b\<close> of two linear expressions (operator
  not in the sources): the terms of \<open>a\<close> followed by the negated terms of \<open>b\<close>.
\<close>

definition le_minus ::
  "('c, 'h, 'p) LinearExpression \<Rightarrow> ('c, 'h, 'p) LinearExpression
    \<Rightarrow> ('c, 'h, 'p) LinearExpression" where
  "le_minus a b = a @ map (\<lambda>(variable, coefficient). (variable, - coefficient)) b"

text \<open>
  Modelled from the spec: the value of a linear expression under an assignment of values
  to the variables, the weighted sum the spec's formulas denote.
\<close>

definition le_value ::
  "(('c, 'h, 'p) IntegerVariable \<Rightarrow> int) \<Rightarrow> ('c, 'h, 'p) LinearExpression \<Rightarrow> int" where
  "le_value \<sigma> le = sum_list (map (\<lambda>(variable, coefficient). coefficient * \<sigma> variable) le)"

text \<open>
  Modelled from the spec: \<open>EqualityConstraint(lhs, rhs)\<close> and
  \<open>LE_InequalityConstraint(lhs, rhs)\<close> (classes not in the sources), the constraints
  \<open>lhs == rhs\<close> and \<open>lhs \<le> rhs\<close> of a linear expression against a constant.
\<close>

datatype ('c, 'h, 'p) Constraint =
    EqualityConstraint "('c, 'h, 'p) LinearExpression" int
  | LE_InequalityConstraint "('c, 'h, 'p) LinearExpression" int

text \<open>
  Modelled from the spec: what it means for an assignment to satisfy a constraint.
\<close>

fun satisfied ::
  "(('c, 'h, 'p) IntegerVariable \<Rightarrow> int) \<Rightarrow> ('c, 'h, 'p) Constraint \<Rightarrow> bool" where
  "satisfied \<sigma> (EqualityConstraint lhs rhs) = (le_value \<sigma> lhs = rhs)"
| "satisfied \<sigma> (LE_InequalityConstraint lhs rhs) = (le_value \<sigma> lhs \<le> rhs)"

text \<open>
  Modelled from the spec: \<open>Model\<close> (class not in the sources), the tuple of the variable
  list, the objective and the constraint list that \<open>__init__\<close> passes to its constructor.
\<close>

record ('c, 'h, 'p) Model =
  decision_variables :: "('c, 'h, 'p) IntegerVariable list"
  objective :: "('c, 'h, 'p) LinearExpression"
  constraints :: "('c, 'h, 'p) Constraint list"

section \<open>Python dictionaries, \<open>itertools.product\<close> and \<open>for\<close> loops\<close>

text \<open>
  A dictionary keeps its keys in insertion order; storing under a key that is already
  there replaces the value and keeps the key's place. \<open>d[k]\<close> raises \<open>KeyError\<close> when
  \<open>k\<close> is missing. A dictionary comprehension stores the entries in the order the
  generator yields them.
\<close>

definition dict_setitem :: "'k \<Rightarrow> 'v \<Rightarrow> ('k \<times> 'v) list \<Rightarrow> ('k \<times> 'v) list" where
  "dict_setitem k v d = AList.update k v d"

definition dict_getitem :: "('k \<times> 'v) list \<Rightarrow> 'k \<Rightarrow> error + 'v" where
  "dict_getitem d k = (case map_of d k of None \<Rightarrow> Inl KeyError | Some v \<Rightarrow> Inr v)"

definition dict_values :: "('k \<times> 'v) list \<Rightarrow> 'v list" where
  "dict_values d = map snd d"

definition dict_comprehension :: "('k \<Rightarrow> 'v) \<Rightarrow> 'k list \<Rightarrow> ('k \<times> 'v) list" where
  "dict_comprehension value keys = fold (\<lambda>k d. dict_setitem k (value k) d) keys []"

definition itertools_product :: "'a list \<Rightarrow> 'b list \<Rightarrow> ('a \<times> 'b) list" where
  "itertools_product xs ys = concat (map (\<lambda>x. map (\<lambda>y. (x, y)) ys) xs)"

definition itertools_product3 :: "'a list \<Rightarrow> 'b list \<Rightarrow> 'c list \<Rightarrow> ('a \<times> 'b \<times> 'c) list" where
  "itertools_product3 xs ys zs = itertools_product xs (itertools_product ys zs)"

text \<open>
  A \<open>for\<close> loop whose body may raise: the body maps the loop variable and the state to
  the next state or to the error, and the first error ends the loop.
\<close>

fun for_loop :: "('a \<Rightarrow> 's \<Rightarrow> error + 's) \<Rightarrow> 'a list \<Rightarrow> 's \<Rightarrow> error + 's" where
  "for_loop body [] s = Inr s"
| "for_loop body (x # xs) s =
     (case body x s of Inl e \<Rightarrow> Inl e | Inr s' \<Rightarrow> for_loop body xs s')"

section \<open>The class \<open>SolveProductTrips\<close>\<close>

text \<open>
  A trip's \<open>origin\<close> and \<open>destination\<close> hold the hub or customer object read from the
  variable (the dataclass annotates them \<open>str\<close>, which Python does not enforce).
\<close>

datatype ('c, 'h) place = Hub 'h | Customer 'c

record ('c, 'h, 'p) Trip =
  origin :: "('c, 'h) place"
  destination :: "('c, 'h) place"
  product_type :: 'p
  product_quantity :: int

record ('c, 'h, 'p) trips =
  hub_to_customer :: "('c, 'h, 'p) Trip list"
  hub_to_hub :: "('c, 'h, 'p) Trip list"

text \<open>
  The attributes of the object. \<open>__init__\<close> assigns \<open>model\<close> last and \<open>get_variables\<close>
  assigns the four dictionaries; nothing reads an attribute before it is assigned, so
  the fields start empty.
\<close>

record ('c, 'h, 'p, 'l) SolveProductTrips =
  environment :: "'l Environment"
  max_flight_capacity :: int
  n_flights_variables :: "(('c \<times> 'h) \<times> ('c, 'h, 'p) IntegerVariable) list"
  n_product_move_variables :: "(('c \<times> 'h \<times> 'p) \<times> ('c, 'h, 'p) IntegerVariable) list"
  n_flights_hub_to_hub_variables :: "(('h \<times> 'h) \<times> ('c, 'h, 'p) IntegerVariable) list"
  n_products_move_hub_to_hub_variables ::
    "(('h \<times> 'h \<times> 'p) \<times> ('c, 'h, 'p) IntegerVariable) list"
  model :: "('c, 'h, 'p) Model"

subsection \<open>The variable catalog\<close>

text \<open>
  The functions \<open>_get_...\<close> of the source are written without the leading underscore.
  Each \<open>new_...\<close> is the constructor call inside the corresponding comprehension.
\<close>

definition new_FlightsCustomerHub ::
  "('c, 'h, 'p, 'l) objects \<Rightarrow> 'c \<times> 'h \<Rightarrow> ('c, 'h, 'p) IntegerVariable" where
  "new_FlightsCustomerHub W = (\<lambda>(customer, hub).
     \<lparr>name = {''number of flights from '' @ hub_str W hub @ '' to '' @ customer_str W customer},
      lower_bound = 0,
      upper_bound = None,
      data = FlightsCustomerHub customer hub\<rparr>)"

definition new_ProductsMoveCustomerHub ::
  "('c, 'h, 'p, 'l) objects \<Rightarrow> 'c \<times> 'h \<times> 'p \<Rightarrow> ('c, 'h, 'p) IntegerVariable" where
  "new_ProductsMoveCustomerHub W = (\<lambda>(customer, hub, product).
     \<lparr>name = {''number of products of product type '' @ product_str W product @ '' from ''
               @ hub_str W hub @ '' to '' @ customer_str W customer},
      lower_bound = 0,
      upper_bound = Some (if product \<in> dom (customer_demand W customer)
                          then the (customer_demand W customer product) else 0),
      data = ProductsMoveCustomerHub customer hub product\<rparr>)"

definition new_FlightsHubHub ::
  "('c, 'h, 'p, 'l) objects \<Rightarrow> 'h \<times> 'h \<Rightarrow> ('c, 'h, 'p) IntegerVariable" where
  "new_FlightsHubHub W = (\<lambda>(hub1, hub2).
     \<lparr>name = {''number of flights from '' @ hub_str W hub1 @ '' to '' @ hub_str W hub2},
      lower_bound = 0,
      upper_bound = None,
      data = FlightsHubHub hub1 hub2\<rparr>)"

definition new_ProductsMoveHubHub ::
  "('c, 'h, 'p, 'l) objects \<Rightarrow> 'h \<times> 'h \<times> 'p \<Rightarrow> ('c, 'h, 'p) IntegerVariable" where
  "new_ProductsMoveHubHub W = (\<lambda>(hub1, hub2, product).
     \<lparr>name = {''number of products of product type '' @ product_str W product @ '' from ''
               @ hub_str W hub1 @ '' to '' @ hub_str W hub2},
      lower_bound = 0,
      upper_bound = None,
      data = ProductsMoveHubHub hub1 hub2 product\<rparr>)"

definition get_n_flights_variables ::
  "('c, 'h, 'p, 'l) objects \<Rightarrow> 'c list \<Rightarrow> 'h list
    \<Rightarrow> (('c \<times> 'h) \<times> ('c, 'h, 'p) IntegerVariable) list" where
  "get_n_flights_variables W customers hubs =
     dict_comprehension (new_FlightsCustomerHub W) (itertools_product customers hubs)"

definition get_n_products_move_variables ::
  "('c, 'h, 'p, 'l) objects \<Rightarrow> 'c list \<Rightarrow> 'h list \<Rightarrow> 'p list
    \<Rightarrow> (('c \<times> 'h \<times> 'p) \<times> ('c, 'h, 'p) IntegerVariable) list" where
  "get_n_products_move_variables W customers hubs products =
     dict_comprehension (new_ProductsMoveCustomerHub W)
       (itertools_product3 customers hubs products)"

definition get_n_flights_hub_to_hub ::
  "('c, 'h, 'p, 'l) objects \<Rightarrow> 'h list
    \<Rightarrow> (('h \<times> 'h) \<times> ('c, 'h, 'p) IntegerVariable) list" where
  "get_n_flights_hub_to_hub W hubs =
     dict_comprehension (new_FlightsHubHub W)
       (filter (\<lambda>(hub1, hub2). hub1 \<noteq> hub2) (itertools_product hubs hubs))"

definition get_n_products_move_hub_to_hub ::
  "('c, 'h, 'p, 'l) objects \<Rightarrow> 'h list \<Rightarrow> 'p list
    \<Rightarrow> (('h \<times> 'h \<times> 'p) \<times> ('c, 'h, 'p) IntegerVariable) list" where
  "get_n_products_move_hub_to_hub W hubs products =
     dict_comprehension (new_ProductsMoveHubHub W)
       (filter (\<lambda>(hub1, hub2, product). hub1 \<noteq> hub2)
          (itertools_product3 hubs hubs products))"

text \<open>\<open>get_variables\<close> assigns the four dictionaries and returns the list of all values.\<close>

definition get_variables ::
  "('c, 'h, 'p, 'l) objects \<Rightarrow> ('c, 'h, 'p, 'l) SolveProductTrips \<Rightarrow> 'c list \<Rightarrow> 'h list
    \<Rightarrow> 'p list \<Rightarrow> ('c, 'h, 'p) IntegerVariable list \<times> ('c, 'h, 'p, 'l) SolveProductTrips" where
  "get_variables W self customers hubs products =
     (let self = self\<lparr>n_flights_variables := get_n_flights_variables W customers hubs\<rparr>;
          self = self\<lparr>n_product_move_variables :=
                   get_n_products_move_variables W customers hubs products\<rparr>;
          self = self\<lparr>n_flights_hub_to_hub_variables := get_n_flights_hub_to_hub W hubs\<rparr>;
          self = self\<lparr>n_products_move_hub_to_hub_variables :=
                   get_n_products_move_hub_to_hub W hubs products\<rparr>
      in (dict_values (n_flights_variables self)
          @ dict_values (n_product_move_variables self)
          @ dict_values (n_flights_hub_to_hub_variables self)
          @ dict_values (n_products_move_hub_to_hub_variables self),
          self))"

subsection \<open>The objective\<close>

definition get_objective ::
  "('c, 'h, 'p, 'l) objects \<Rightarrow> ('c, 'h, 'p, 'l) SolveProductTrips \<Rightarrow> 'c list \<Rightarrow> 'h list
    \<Rightarrow> error + ('c, 'h, 'p) LinearExpression" where
  "get_objective W self customers hubs =
     (case for_loop
             (\<lambda>(customer, hub) le.
                case dict_getitem (n_flights_variables self) (customer, hub) of
                  Inl e \<Rightarrow> Inl e
                | Inr variable \<Rightarrow>
                    Inr (add_variable variable
                           (get_distance (environment self)
                              (hub_location W hub) (customer_location W customer)) le))
             (itertools_product customers hubs) LinearExpression of
        Inl e \<Rightarrow> Inl e
      | Inr le \<Rightarrow>
          for_loop
            (\<lambda>(hub1, hub2) le.
               if hub1 \<noteq> hub2 then
                 (case dict_getitem (n_flights_hub_to_hub_variables self) (hub1, hub2) of
                    Inl e \<Rightarrow> Inl e
                  | Inr variable \<Rightarrow>
                      Inr (add_variable variable
                             (get_distance (environment self)
                                (hub_location W hub1) (hub_location W hub2)) le))
               else Inr le)
            (itertools_product hubs hubs) le)"

subsection \<open>The four constraint families\<close>

text \<open>
  In \<open>get_demand_constraints\<close> the test \<open>product in customer.demand\<close> and the read
  \<open>customer.demand[product]\<close> that it guards are one case distinction on the lookup.
\<close>

definition get_demand_constraints ::
  "('c, 'h, 'p, 'l) objects \<Rightarrow> ('c, 'h, 'p, 'l) SolveProductTrips \<Rightarrow> 'c list \<Rightarrow> 'p list
    \<Rightarrow> 'h list \<Rightarrow> error + ('c, 'h, 'p) Constraint list" where
  "get_demand_constraints W self customers products hubs =
     for_loop
       (\<lambda>(customer, product) constraints.
          case customer_demand W customer product of
            None \<Rightarrow> Inr constraints
          | Some demand \<Rightarrow>
              (case for_loop
                      (\<lambda>hub lhs.
                         case dict_getitem (n_product_move_variables self)
                                (customer, hub, product) of
                           Inl e \<Rightarrow> Inl e
                         | Inr variable \<Rightarrow> Inr (add_variable variable 1 lhs))
                      hubs LinearExpression of
                 Inl e \<Rightarrow> Inl e
               | Inr lhs \<Rightarrow> Inr (constraints @ [EqualityConstraint lhs demand])))
       (itertools_product customers products) []"

definition get_supply_constraints ::
  "('c, 'h, 'p, 'l) objects \<Rightarrow> ('c, 'h, 'p, 'l) SolveProductTrips \<Rightarrow> 'c list \<Rightarrow> 'p list
    \<Rightarrow> 'h list \<Rightarrow> error + ('c, 'h, 'p) Constraint list" where
  "get_supply_constraints W self customers products hubs =
     for_loop
       (\<lambda>(hub, product) constraints.
          case for_loop
                 (\<lambda>customer le_1.
                    case dict_getitem (n_product_move_variables self)
                           (customer, hub, product) of
                      Inl e \<Rightarrow> Inl e
                    | Inr variable \<Rightarrow> Inr (add_variable variable 1 le_1))
                 customers LinearExpression of
            Inl e \<Rightarrow> Inl e
          | Inr le_1 \<Rightarrow>
              (case for_loop
                      (\<lambda>hub' le_2.
                         if hub' \<noteq> hub then
                           (case dict_getitem (n_products_move_hub_to_hub_variables self)
                                   (hub', hub, product) of
                              Inl e \<Rightarrow> Inl e
                            | Inr variable_in \<Rightarrow>
                                (case dict_getitem (n_products_move_hub_to_hub_variables self)
                                        (hub, hub', product) of
                                   Inl e \<Rightarrow> Inl e
                                 | Inr variable_out \<Rightarrow>
                                     Inr (add_variable variable_out (- 1)
                                            (add_variable variable_in 1 le_2))))
                         else Inr le_2)
                      hubs LinearExpression of
                 Inl e \<Rightarrow> Inl e
               | Inr le_2 \<Rightarrow>
                   Inr (constraints @
                          [LE_InequalityConstraint (le_minus le_1 le_2)
                             (hub_get_available_items W hub product)])))
       (itertools_product hubs products) []"

definition get_trips_constraints ::
  "('c, 'h, 'p, 'l) SolveProductTrips \<Rightarrow> 'c list \<Rightarrow> 'p list \<Rightarrow> 'h list
    \<Rightarrow> error + ('c, 'h, 'p) Constraint list" where
  "get_trips_constraints self customers products hubs =
     for_loop
       (\<lambda>(customer, hub) constraints.
          case for_loop
                 (\<lambda>product le_1.
                    case dict_getitem (n_product_move_variables self)
                           (customer, hub, product) of
                      Inl e \<Rightarrow> Inl e
                    | Inr variable \<Rightarrow> Inr (add_variable variable 1 le_1))
                 products LinearExpression of
            Inl e \<Rightarrow> Inl e
          | Inr le_1 \<Rightarrow>
              (case dict_getitem (n_flights_variables self) (customer, hub) of
                 Inl e \<Rightarrow> Inl e
               | Inr flights \<Rightarrow>
                   (let le_2 = add_variable flights (max_flight_capacity self) LinearExpression
                    in Inr (constraints @ [LE_InequalityConstraint (le_minus le_1 le_2) 0]))))
       (itertools_product customers hubs) []"

definition get_trips_hub_to_hub_constraints ::
  "('c, 'h, 'p, 'l) SolveProductTrips \<Rightarrow> 'p list \<Rightarrow> 'h list
    \<Rightarrow> error + ('c, 'h, 'p) Constraint list" where
  "get_trips_hub_to_hub_constraints self products hubs =
     for_loop
       (\<lambda>(hub1, hub2) constraints.
          if hub1 \<noteq> hub2 then
            (case for_loop
                    (\<lambda>product le_1.
                       case dict_getitem (n_products_move_hub_to_hub_variables self)
                              (hub1, hub2, product) of
                         Inl e \<Rightarrow> Inl e
                       | Inr variable \<Rightarrow> Inr (add_variable variable 1 le_1))
                    products LinearExpression of
               Inl e \<Rightarrow> Inl e
             | Inr le_1 \<Rightarrow>
                 (case dict_getitem (n_flights_hub_to_hub_variables self) (hub1, hub2) of
                    Inl e \<Rightarrow> Inl e
                  | Inr flights \<Rightarrow>
                      (let le_2 = add_variable flights (max_flight_capacity self)
                                    LinearExpression
                       in Inr (constraints
                                 @ [LE_InequalityConstraint (le_minus le_1 le_2) 0]))))
          else Inr constraints)
       (itertools_product hubs hubs) []"

definition get_constraints ::
  "('c, 'h, 'p, 'l) objects \<Rightarrow> ('c, 'h, 'p, 'l) SolveProductTrips \<Rightarrow> 'c list \<Rightarrow> 'h list
    \<Rightarrow> 'p list \<Rightarrow> error + ('c, 'h, 'p) Constraint list" where
  "get_constraints W self customers hubs products =
     (case get_demand_constraints W self customers products hubs of
        Inl e \<Rightarrow> Inl e
      | Inr demand_constraints \<Rightarrow>
     (case get_supply_constraints W self customers products hubs of
        Inl e \<Rightarrow> Inl e
      | Inr supply_constraints \<Rightarrow>
     (case get_trips_constraints self customers products hubs of
        Inl e \<Rightarrow> Inl e
      | Inr trips_constraints \<Rightarrow>
     (case get_trips_hub_to_hub_constraints self products hubs of
        Inl e \<Rightarrow> Inl e
      | Inr trips_hub_hub_constraints \<Rightarrow>
          Inr (demand_constraints @ supply_constraints @ trips_constraints
               @ trips_hub_hub_constraints)))))"

subsection \<open>Construction and the solution interpreter\<close>

definition init ::
  "('c, 'h, 'p, 'l) objects \<Rightarrow> 'c list \<Rightarrow> 'h list \<Rightarrow> 'p list \<Rightarrow> int \<Rightarrow> 'l Environment
    \<Rightarrow> error + ('c, 'h, 'p, 'l) SolveProductTrips" where
  "init W customers hubs products max_flight_capacity' environment' =
     (let self = \<lparr>environment = environment',
                  max_flight_capacity = max_flight_capacity',
                  n_flights_variables = [],
                  n_product_move_variables = [],
                  n_flights_hub_to_hub_variables = [],
                  n_products_move_hub_to_hub_variables = [],
                  model = \<lparr>decision_variables = [], objective = [], constraints = []\<rparr>\<rparr>;
          (decision_variables', self) = get_variables W self customers hubs products
      in case get_objective W self customers hubs of
           Inl e \<Rightarrow> Inl e
         | Inr objective' \<Rightarrow>
             (case get_constraints W self customers hubs products of
                Inl e \<Rightarrow> Inl e
              | Inr constraints' \<Rightarrow>
                  Inr (self\<lparr>model := \<lparr>decision_variables = decision_variables',
                                      objective = objective',
                                      constraints = constraints'\<rparr>\<rparr>)))"

text \<open>
  \<open>solution\<close> is the solver's dictionary from variable to value; the loop visits its
  items in order. The two \<open>if\<close> statements of the body test the class of the variable.
\<close>

fun get_trips_loop ::
  "(('c, 'h, 'p) IntegerVariable \<times> int) list \<Rightarrow> ('c, 'h, 'p) Trip list
    \<Rightarrow> ('c, 'h, 'p) Trip list \<Rightarrow> ('c, 'h, 'p) trips" where
  "get_trips_loop [] trips_hub_to_customer trips_hub_to_hub =
     \<lparr>hub_to_customer = trips_hub_to_customer, hub_to_hub = trips_hub_to_hub\<rparr>"
| "get_trips_loop ((variable, value) # items) trips_hub_to_customer trips_hub_to_hub =
     (let trips_hub_to_customer =
            (case data variable of
               ProductsMoveCustomerHub customer hub product \<Rightarrow>
                 if value \<noteq> 0 then
                   trips_hub_to_customer @
                     [\<lparr>origin = Hub hub, destination = Customer customer,
                       product_type = product, product_quantity = value\<rparr>]
                 else trips_hub_to_customer
             | _ \<Rightarrow> trips_hub_to_customer);
          trips_hub_to_hub =
            (case data variable of
               ProductsMoveHubHub hub1 hub2 product \<Rightarrow>
                 if value \<noteq> 0 then
                   trips_hub_to_hub @
                     [\<lparr>origin = Hub hub1, destination = Hub hub2,
                       product_type = product, product_quantity = value\<rparr>]
                 else trips_hub_to_hub
             | _ \<Rightarrow> trips_hub_to_hub)
      in get_trips_loop items trips_hub_to_customer trips_hub_to_hub)"

definition get_trips ::
  "(('c, 'h, 'p) IntegerVariable \<times> int) list \<Rightarrow> ('c, 'h, 'p) trips" where
  "get_trips solution = get_trips_loop solution [] []"

section \<open>The built model and the notions the properties are stated with\<close>

text \<open>
  \<open>build_model\<close> is the model held by a freshly constructed object. Each
  \<open>model_..._constraints\<close> is one constraint family of that object: the list the
  corresponding function returns on it, which \<open>get_constraints\<close> concatenates.
\<close>

definition build_model ::
  "('c, 'h, 'p, 'l) objects \<Rightarrow> 'c list \<Rightarrow> 'h list \<Rightarrow> 'p list \<Rightarrow> int \<Rightarrow> 'l Environment
    \<Rightarrow> error + ('c, 'h, 'p) Model" where
  "build_model W customers hubs products cap env =
     (case init W customers hubs products cap env of
        Inl e \<Rightarrow> Inl e
      | Inr self \<Rightarrow> Inr (model self))"

definition model_demand_constraints ::
  "('c, 'h, 'p, 'l) objects \<Rightarrow> 'c list \<Rightarrow> 'h list \<Rightarrow> 'p list \<Rightarrow> int \<Rightarrow> 'l Environment
    \<Rightarrow> error + ('c, 'h, 'p) Constraint list" where
  "model_demand_constraints W customers hubs products cap env =
     (case init W customers hubs products cap env of
        Inl e \<Rightarrow> Inl e
      | Inr self \<Rightarrow> get_demand_constraints W self customers products hubs)"

definition model_supply_constraints ::
  "('c, 'h, 'p, 'l) objects \<Rightarrow> 'c list \<Rightarrow> 'h list \<Rightarrow> 'p list \<Rightarrow> int \<Rightarrow> 'l Environment
    \<Rightarrow> error + ('c, 'h, 'p) Constraint list" where
  "model_supply_constraints W customers hubs products cap env =
     (case init W customers hubs products cap env of
        Inl e \<Rightarrow> Inl e
      | Inr self \<Rightarrow> get_supply_constraints W self customers products hubs)"

definition model_trips_constraints ::
  "('c, 'h, 'p, 'l) objects \<Rightarrow> 'c list \<Rightarrow> 'h list \<Rightarrow> 'p list \<Rightarrow> int \<Rightarrow> 'l Environment
    \<Rightarrow> error + ('c, 'h, 'p) Constraint list" where
  "model_trips_constraints W customers hubs products cap env =
     (case init W customers hubs products cap env of
        Inl e \<Rightarrow> Inl e
      | Inr self \<Rightarrow> get_trips_constraints self customers products hubs)"

definition model_trips_hub_to_hub_constraints ::
  "('c, 'h, 'p, 'l) objects \<Rightarrow> 'c list \<Rightarrow> 'h list \<Rightarrow> 'p list \<Rightarrow> int \<Rightarrow> 'l Environment
    \<Rightarrow> error + ('c, 'h, 'p) Constraint list" where
  "model_trips_hub_to_hub_constraints W customers hubs products cap env =
     (case init W customers hubs products cap env of
        Inl e \<Rightarrow> Inl e
      | Inr self \<Rightarrow> get_trips_hub_to_hub_constraints self products hubs)"

text \<open>
  The keys of a dictionary filled in the order \<open>keys\<close>: every key once, at the place of
  its first occurrence.
\<close>

definition insertion_order :: "'k list \<Rightarrow> 'k list" where
  "insertion_order keys = rev (remdups (rev keys))"

text \<open>
  The value a solution dictionary assigns to a variable (0 for a variable that is not a
  key; the properties below take solutions over all variables of the model), and the
  quantity a list of trips delivers to one customer of one product.
\<close>

definition solution_value ::
  "(('c, 'h, 'p) IntegerVariable \<times> int) list \<Rightarrow> ('c, 'h, 'p) IntegerVariable \<Rightarrow> int" where
  "solution_value solution variable =
     (case map_of solution variable of Some value \<Rightarrow> value | None \<Rightarrow> 0)"

definition delivered :: "('c, 'h, 'p) Trip list \<Rightarrow> 'c \<Rightarrow> 'p \<Rightarrow> int" where
  "delivered ts customer product =
     sum_list (map product_quantity
       (filter (\<lambda>t. destination t = Customer customer \<and> product_type t = product) ts))"

text \<open>
  The spec's reading of demand: a product that is not a key of \<open>customer.demand\<close> has
  demand 0, and a pair has nonzero demand when this quantity is not 0.
\<close>

definition demand_of :: "('c, 'h, 'p, 'l) objects \<Rightarrow> 'c \<Rightarrow> 'p \<Rightarrow> int" where
  "demand_of W customer product =
     (case customer_demand W customer product of None \<Rightarrow> 0 | Some quantity \<Rightarrow> quantity)"

definition nonzero_demand_pairs ::
  "('c, 'h, 'p, 'l) objects \<Rightarrow> 'c list \<Rightarrow> 'p list \<Rightarrow> ('c \<times> 'p) list" where
  "nonzero_demand_pairs W customers products =
     filter (\<lambda>(customer, product). demand_of W customer product \<noteq> 0)
       (itertools_product customers products)"

text \<open>A small instance over natural numbers, used to evaluate the model.\<close>

definition example_objects :: "(nat \<rightharpoonup> int) \<Rightarrow> (nat, nat, nat, nat) objects" where
  "example_objects demand =
     \<lparr>customer_location = (\<lambda>customer. 100 + customer),
      customer_demand = (\<lambda>customer. demand),
      customer_str = (\<lambda>customer. ''c''),
      hub_location = (\<lambda>hub. hub),
      hub_get_available_items = (\<lambda>hub product. 10),
      hub_str = (\<lambda>hub. ''h''),
      product_str = (\<lambda>product. ''p'')\<rparr>"

definition example_environment :: "nat Environment" where
  "example_environment = \<lparr>get_distance = (\<lambda>a b. int a + 2 * int b)\<rparr>"

section \<open>Loops, dictionaries and the closed form of each builder\<close>

lemma for_loop_append:
  assumes "\<And>x s. x \<in> set xs \<Longrightarrow> body x s = Inr (s @ f x)"
  shows "for_loop body xs s = Inr (s @ concat (map f xs))"
  using assms by (induction xs arbitrary: s) simp_all

lemma concat_map_if:
  "concat (map (\<lambda>x. if P x then [F x] else []) xs) = map F (filter P xs)"
  by (induction xs) simp_all

lemma set_itertools_product [simp]:
  "set (itertools_product xs ys) = set xs \<times> set ys"
  by (auto simp: itertools_product_def)

lemma set_itertools_product3 [simp]:
  "set (itertools_product3 xs ys zs) = set xs \<times> set ys \<times> set zs"
  by (simp add: itertools_product3_def)

lemma map_of_fold_setitem:
  "map_of (fold (\<lambda>k d. dict_setitem k (g k) d) ks d) k =
     (if k \<in> set ks then Some (g k) else map_of d k)"
  by (induction ks arbitrary: d) (auto simp: dict_setitem_def update_conv')

lemma map_of_dict_comprehension:
  "map_of (dict_comprehension g ks) k = (if k \<in> set ks then Some (g k) else None)"
  by (simp add: dict_comprehension_def map_of_fold_setitem)

lemma dict_getitem_comprehension:
  "k \<in> set ks \<Longrightarrow> dict_getitem (dict_comprehension g ks) k = Inr (g k)"
  by (simp add: dict_getitem_def map_of_dict_comprehension)

lemma update_map_graph:
  "AList.update k (g k) (map (\<lambda>k. (k, g k)) ks) =
     (if k \<in> set ks then map (\<lambda>k. (k, g k)) ks else map (\<lambda>k. (k, g k)) ks @ [(k, g k)])"
  by (induction ks) auto

lemma dict_comprehension_eq:
  "dict_comprehension g ks = map (\<lambda>k. (k, g k)) (rev (remdups (rev ks)))"
proof (induction ks rule: rev_induct)
  case Nil
  show ?case by (simp add: dict_comprehension_def)
next
  case (snoc x xs)
  then show ?case
    by (simp add: dict_comprehension_def dict_setitem_def update_map_graph)
qed

lemma dict_values_comprehension:
  "dict_values (dict_comprehension g ks) = map g (rev (remdups (rev ks)))"
  by (simp add: dict_comprehension_eq dict_values_def comp_def)


lemma concat_map_single: "concat (map (\<lambda>x. [F x]) xs) = map F xs"
  by (induction xs) simp_all

lemma get_objective_eq:
  assumes "n_flights_variables self = get_n_flights_variables W customers hubs"
    and "n_flights_hub_to_hub_variables self = get_n_flights_hub_to_hub W hubs"
  shows "get_objective W self customers hubs =
    Inr (map (\<lambda>(customer, hub). (new_FlightsCustomerHub W (customer, hub),
               get_distance (environment self) (hub_location W hub) (customer_location W customer)))
           (itertools_product customers hubs)
         @ map (\<lambda>(hub1, hub2). (new_FlightsHubHub W (hub1, hub2),
               get_distance (environment self) (hub_location W hub1) (hub_location W hub2)))
           (filter (\<lambda>(hub1, hub2). hub1 \<noteq> hub2) (itertools_product hubs hubs)))"
proof -
  let ?f1 = "\<lambda>(customer, hub). [(new_FlightsCustomerHub W (customer, hub),
               get_distance (environment self) (hub_location W hub) (customer_location W customer))]"
  let ?f2 = "\<lambda>(hub1, hub2). if hub1 \<noteq> hub2 then [(new_FlightsHubHub W (hub1, hub2),
               get_distance (environment self) (hub_location W hub1) (hub_location W hub2))] else []"
  have 1: "for_loop
             (\<lambda>(customer, hub) le.
                case dict_getitem (n_flights_variables self) (customer, hub) of
                  Inl e \<Rightarrow> Inl e
                | Inr variable \<Rightarrow>
                    Inr (add_variable variable
                           (get_distance (environment self)
                              (hub_location W hub) (customer_location W customer)) le))
             (itertools_product customers hubs) LinearExpression
         = Inr (LinearExpression @ concat (map ?f1 (itertools_product customers hubs)))"
    by (rule for_loop_append)
       (auto simp: assms get_n_flights_variables_def dict_getitem_comprehension add_variable_def)
  have 2: "for_loop
            (\<lambda>(hub1, hub2) le.
               if hub1 \<noteq> hub2 then
                 (case dict_getitem (n_flights_hub_to_hub_variables self) (hub1, hub2) of
                    Inl e \<Rightarrow> Inl e
                  | Inr variable \<Rightarrow>
                      Inr (add_variable variable
                             (get_distance (environment self)
                                (hub_location W hub1) (hub_location W hub2)) le))
               else Inr le)
            (itertools_product hubs hubs) le
         = Inr (le @ concat (map ?f2 (itertools_product hubs hubs)))" for le
    by (rule for_loop_append)
       (auto simp: assms get_n_flights_hub_to_hub_def dict_getitem_comprehension add_variable_def)
  have 3: "concat (map ?f1 xs) = map (\<lambda>(customer, hub). (new_FlightsCustomerHub W (customer, hub),
               get_distance (environment self) (hub_location W hub) (customer_location W customer))) xs" for xs
    by (induction xs) auto
  have 4: "concat (map ?f2 xs) = map (\<lambda>(hub1, hub2). (new_FlightsHubHub W (hub1, hub2),
               get_distance (environment self) (hub_location W hub1) (hub_location W hub2)))
           (filter (\<lambda>(hub1, hub2). hub1 \<noteq> hub2) xs)" for xs
    by (induction xs) auto
  show ?thesis
    unfolding get_objective_def 1 by (simp add: 2 3 4 LinearExpression_def)
qed


lemma lookup_loop:
  assumes "\<And>x. x \<in> set xs \<Longrightarrow> key x \<in> set ks"
  shows "for_loop (\<lambda>x le. case dict_getitem (dict_comprehension g ks) (key x) of
                              Inl e \<Rightarrow> Inl e
                            | Inr variable \<Rightarrow> Inr (add_variable variable 1 le)) xs le
         = Inr (le @ map (\<lambda>x. (g (key x), 1)) xs)"
proof -
  have "for_loop (\<lambda>x le. case dict_getitem (dict_comprehension g ks) (key x) of
                              Inl e \<Rightarrow> Inl e
                            | Inr variable \<Rightarrow> Inr (add_variable variable 1 le)) xs le
         = Inr (le @ concat (map (\<lambda>x. [(g (key x), 1)]) xs))"
    by (rule for_loop_append) (simp add: assms dict_getitem_comprehension add_variable_def)
  then show ?thesis by (simp add: concat_map_single)
qed

lemma concat_map_option:
  "concat (map (\<lambda>(a, b). case d a b of None \<Rightarrow> [] | Some v \<Rightarrow> [F a b v]) xs)
     = map (\<lambda>(a, b). F a b (the (d a b))) (filter (\<lambda>(a, b). d a b \<noteq> None) xs)"
  by (induction xs) auto

lemma get_demand_constraints_eq:
  assumes "n_product_move_variables self = get_n_products_move_variables W customers hubs products"
  shows "get_demand_constraints W self customers products hubs =
    Inr (map (\<lambda>(customer, product).
                EqualityConstraint
                  (map (\<lambda>hub. (new_ProductsMoveCustomerHub W (customer, hub, product), 1)) hubs)
                  (the (customer_demand W customer product)))
           (filter (\<lambda>(customer, product). customer_demand W customer product \<noteq> None)
              (itertools_product customers products)))"
proof -
  let ?F = "\<lambda>customer product demand. EqualityConstraint
              (map (\<lambda>hub. (new_ProductsMoveCustomerHub W (customer, hub, product), 1)) hubs) demand"
  have inner: "for_loop (\<lambda>hub lhs.
                         case dict_getitem (n_product_move_variables self)
                                (customer, hub, product) of
                           Inl e \<Rightarrow> Inl e
                         | Inr variable \<Rightarrow> Inr (add_variable variable 1 lhs))
                      hubs LinearExpression
        = Inr (map (\<lambda>hub. (new_ProductsMoveCustomerHub W (customer, hub, product), 1)) hubs)"
    if "customer \<in> set customers" "product \<in> set products" for customer product
    unfolding assms get_n_products_move_variables_def
    using that
    by (subst lookup_loop[where key = "\<lambda>hub. (customer, hub, product)"])
       (simp_all add: LinearExpression_def)
  have "get_demand_constraints W self customers products hubs =
    Inr ([] @ concat (map (\<lambda>(customer, product).
           case customer_demand W customer product of None \<Rightarrow> []
           | Some demand \<Rightarrow> [?F customer product demand])
         (itertools_product customers products)))"
    unfolding get_demand_constraints_def
    by (rule for_loop_append) (auto simp: inner split: option.splits)
  then show ?thesis
    by (simp add: concat_map_option[where d = "customer_demand W" and F = ?F])
qed


lemma concat_map_filter_if:
  "concat (map (\<lambda>x. if P x then F x else []) xs) = concat (map F (filter P xs))"
  by (induction xs) simp_all

lemma get_supply_constraints_eq:
  assumes "n_product_move_variables self = get_n_products_move_variables W customers hubs products"
    and "n_products_move_hub_to_hub_variables self = get_n_products_move_hub_to_hub W hubs products"
  shows "get_supply_constraints W self customers products hubs =
    Inr (map (\<lambda>(hub, product).
                LE_InequalityConstraint
                  (le_minus
                     (map (\<lambda>customer. (new_ProductsMoveCustomerHub W (customer, hub, product), 1))
                        customers)
                     (concat (map (\<lambda>hub'. [(new_ProductsMoveHubHub W (hub', hub, product), 1),
                                            (new_ProductsMoveHubHub W (hub, hub', product), - 1)])
                        (filter (\<lambda>hub'. hub' \<noteq> hub) hubs))))
                  (hub_get_available_items W hub product))
           (itertools_product hubs products))"
proof -
  let ?F = "\<lambda>(hub, product).
                LE_InequalityConstraint
                  (le_minus
                     (map (\<lambda>customer. (new_ProductsMoveCustomerHub W (customer, hub, product), 1))
                        customers)
                     (concat (map (\<lambda>hub'. [(new_ProductsMoveHubHub W (hub', hub, product), 1),
                                            (new_ProductsMoveHubHub W (hub, hub', product), - 1)])
                        (filter (\<lambda>hub'. hub' \<noteq> hub) hubs))))
                  (hub_get_available_items W hub product)"
  have inner1: "for_loop (\<lambda>customer le_1.
                    case dict_getitem (n_product_move_variables self)
                           (customer, hub, product) of
                      Inl e \<Rightarrow> Inl e
                    | Inr variable \<Rightarrow> Inr (add_variable variable 1 le_1))
                 customers []
        = Inr (map (\<lambda>customer. (new_ProductsMoveCustomerHub W (customer, hub, product), 1))
                 customers)"
    if "hub \<in> set hubs" "product \<in> set products" for hub product
    unfolding assms get_n_products_move_variables_def
    using that
    by (subst lookup_loop[where key = "\<lambda>customer. (customer, hub, product)"])
       (simp_all add: LinearExpression_def)
  have inner2: "for_loop
                      (\<lambda>hub' le_2.
                         if hub' \<noteq> hub then
                           (case dict_getitem (n_products_move_hub_to_hub_variables self)
                                   (hub', hub, product) of
                              Inl e \<Rightarrow> Inl e
                            | Inr variable_in \<Rightarrow>
                                (case dict_getitem (n_products_move_hub_to_hub_variables self)
                                        (hub, hub', product) of
                                   Inl e \<Rightarrow> Inl e
                                 | Inr variable_out \<Rightarrow>
                                     Inr (add_variable variable_out (- 1)
                                            (add_variable variable_in 1 le_2))))
                         else Inr le_2)
                      hubs []
        = Inr ([] @ concat (map (\<lambda>hub'. if hub' \<noteq> hub then
                  [(new_ProductsMoveHubHub W (hub', hub, product), 1),
                   (new_ProductsMoveHubHub W (hub, hub', product), - 1)] else []) hubs))"
    if "hub \<in> set hubs" "product \<in> set products" for hub product
    using that
    by (intro for_loop_append)
       (auto simp: assms get_n_products_move_hub_to_hub_def dict_getitem_comprehension
          add_variable_def)
  have "get_supply_constraints W self customers products hubs =
    Inr ([] @ concat (map (\<lambda>x. [?F x]) (itertools_product hubs products)))"
    unfolding get_supply_constraints_def
    by (rule for_loop_append)
       (auto simp: inner1 inner2 LinearExpression_def concat_map_filter_if)
  then show ?thesis
    by (simp add: concat_map_single)
qed

lemma get_trips_constraints_eq:
  assumes "n_product_move_variables self = get_n_products_move_variables W customers hubs products"
    and "n_flights_variables self = get_n_flights_variables W customers hubs"
  shows "get_trips_constraints self customers products hubs =
    Inr (map (\<lambda>(customer, hub).
                LE_InequalityConstraint
                  (le_minus
                     (map (\<lambda>product. (new_ProductsMoveCustomerHub W (customer, hub, product), 1))
                        products)
                     [(new_FlightsCustomerHub W (customer, hub), max_flight_capacity self)])
                  0)
           (itertools_product customers hubs))"
proof -
  let ?F = "\<lambda>(customer, hub).
                LE_InequalityConstraint
                  (le_minus
                     (map (\<lambda>product. (new_ProductsMoveCustomerHub W (customer, hub, product), 1))
                        products)
                     [(new_FlightsCustomerHub W (customer, hub), max_flight_capacity self)])
                  0"
  have inner1: "for_loop (\<lambda>product le_1.
                    case dict_getitem (n_product_move_variables self)
                           (customer, hub, product) of
                      Inl e \<Rightarrow> Inl e
                    | Inr variable \<Rightarrow> Inr (add_variable variable 1 le_1))
                 products []
        = Inr (map (\<lambda>product. (new_ProductsMoveCustomerHub W (customer, hub, product), 1))
                 products)"
    if "customer \<in> set customers" "hub \<in> set hubs" for hub customer
    unfolding assms get_n_products_move_variables_def
    using that
    by (subst lookup_loop[where key = "\<lambda>product. (customer, hub, product)"])
       (simp_all add: LinearExpression_def)
  have "get_trips_constraints self customers products hubs =
    Inr ([] @ concat (map (\<lambda>x. [?F x]) (itertools_product customers hubs)))"
    unfolding get_trips_constraints_def
    by (rule for_loop_append)
       (auto simp: inner1 LinearExpression_def assms(2) get_n_flights_variables_def
          dict_getitem_comprehension add_variable_def)
  then show ?thesis
    by (simp add: concat_map_single)
qed

lemma get_trips_hub_to_hub_constraints_eq:
  assumes "n_products_move_hub_to_hub_variables self = get_n_products_move_hub_to_hub W hubs products"
    and "n_flights_hub_to_hub_variables self = get_n_flights_hub_to_hub W hubs"
  shows "get_trips_hub_to_hub_constraints self products hubs =
    Inr (map (\<lambda>(hub1, hub2).
                LE_InequalityConstraint
                  (le_minus
                     (map (\<lambda>product. (new_ProductsMoveHubHub W (hub1, hub2, product), 1))
                        products)
                     [(new_FlightsHubHub W (hub1, hub2), max_flight_capacity self)])
                  0)
           (filter (\<lambda>(hub1, hub2). hub1 \<noteq> hub2) (itertools_product hubs hubs)))"
proof -
  let ?F = "\<lambda>(hub1, hub2).
                LE_InequalityConstraint
                  (le_minus
                     (map (\<lambda>product. (new_ProductsMoveHubHub W (hub1, hub2, product), 1))
                        products)
                     [(new_FlightsHubHub W (hub1, hub2), max_flight_capacity self)])
                  0"
  have inner1: "for_loop (\<lambda>product le_1.
                       case dict_getitem (n_products_move_hub_to_hub_variables self)
                              (hub1, hub2, product) of
                         Inl e \<Rightarrow> Inl e
                       | Inr variable \<Rightarrow> Inr (add_variable variable 1 le_1))
                    products []
        = Inr (map (\<lambda>product. (new_ProductsMoveHubHub W (hub1, hub2, product), 1))
                 products)"
    if "hub1 \<in> set hubs" "hub2 \<in> set hubs" "hub1 \<noteq> hub2" for hub1 hub2
    unfolding assms get_n_products_move_hub_to_hub_def
    using that
    by (subst lookup_loop[where key = "\<lambda>product. (hub1, hub2, product)"])
       (simp_all add: LinearExpression_def)
  have "get_trips_hub_to_hub_constraints self products hubs =
    Inr ([] @ concat (map (\<lambda>x. if (\<lambda>(hub1, hub2). hub1 \<noteq> hub2) x then [?F x] else [])
       (itertools_product hubs hubs)))"
    unfolding get_trips_hub_to_hub_constraints_def
    by (rule for_loop_append)
       (auto simp: inner1 LinearExpression_def assms(2) get_n_flights_hub_to_hub_def
          dict_getitem_comprehension add_variable_def)
  then show ?thesis
    by (simp only: concat_map_if append_Nil)
qed


lemma get_constraints_Inr:
  assumes "get_demand_constraints W self customers products hubs = Inr dc"
    and "get_supply_constraints W self customers products hubs = Inr sc"
    and "get_trips_constraints self customers products hubs = Inr tc"
    and "get_trips_hub_to_hub_constraints self products hubs = Inr hc"
  shows "get_constraints W self customers hubs products = Inr (dc @ sc @ tc @ hc)"
  by (simp add: get_constraints_def assms)

lemma init_built:
  "\<exists>self. init W customers hubs products cap env = Inr self
     \<and> environment self = env
     \<and> max_flight_capacity self = cap
     \<and> n_flights_variables self = get_n_flights_variables W customers hubs
     \<and> n_product_move_variables self = get_n_products_move_variables W customers hubs products
     \<and> n_flights_hub_to_hub_variables self = get_n_flights_hub_to_hub W hubs
     \<and> n_products_move_hub_to_hub_variables self = get_n_products_move_hub_to_hub W hubs products
     \<and> decision_variables (model self) =
           dict_values (get_n_flights_variables W customers hubs)
           @ dict_values (get_n_products_move_variables W customers hubs products)
           @ dict_values (get_n_flights_hub_to_hub W hubs)
           @ dict_values (get_n_products_move_hub_to_hub W hubs products)
     \<and> get_objective W self customers hubs = Inr (objective (model self))
     \<and> get_constraints W self customers hubs products = Inr (constraints (model self))"
proof -
  define S :: "('a, 'b, 'c, 'd) SolveProductTrips" where
    "S = \<lparr>environment = env, max_flight_capacity = cap,
          n_flights_variables = get_n_flights_variables W customers hubs,
          n_product_move_variables = get_n_products_move_variables W customers hubs products,
          n_flights_hub_to_hub_variables = get_n_flights_hub_to_hub W hubs,
          n_products_move_hub_to_hub_variables = get_n_products_move_hub_to_hub W hubs products,
          model = \<lparr>decision_variables = [], objective = [], constraints = []\<rparr>\<rparr>"
  have f: "n_flights_variables S = get_n_flights_variables W customers hubs"
    "n_product_move_variables S = get_n_products_move_variables W customers hubs products"
    "n_flights_hub_to_hub_variables S = get_n_flights_hub_to_hub W hubs"
    "n_products_move_hub_to_hub_variables S = get_n_products_move_hub_to_hub W hubs products"
    by (simp_all add: S_def)
  obtain obj where obj: "get_objective W S customers hubs = Inr obj"
    using get_objective_eq[OF f(1) f(3)] by blast
  obtain dc where dc: "get_demand_constraints W S customers products hubs = Inr dc"
    using get_demand_constraints_eq[OF f(2)] by blast
  obtain sc where sc: "get_supply_constraints W S customers products hubs = Inr sc"
    using get_supply_constraints_eq[OF f(2) f(4)] by blast
  obtain tc where tc: "get_trips_constraints S customers products hubs = Inr tc"
    using get_trips_constraints_eq[OF f(2) f(1)] by blast
  obtain hc where hc: "get_trips_hub_to_hub_constraints S products hubs = Inr hc"
    using get_trips_hub_to_hub_constraints_eq[OF f(4) f(3)] by blast
  note cons = get_constraints_Inr[OF dc sc tc hc]
  define m where "m = \<lparr>decision_variables =
           dict_values (get_n_flights_variables W customers hubs)
           @ dict_values (get_n_products_move_variables W customers hubs products)
           @ dict_values (get_n_flights_hub_to_hub W hubs)
           @ dict_values (get_n_products_move_hub_to_hub W hubs products),
      objective = obj, constraints = dc @ sc @ tc @ hc\<rparr>"
  have i: "init W customers hubs products cap env = Inr (S\<lparr>model := m\<rparr>)"
    using obj cons by (simp add: init_def get_variables_def S_def m_def)
  have f': "n_flights_variables (S\<lparr>model := m\<rparr>) = get_n_flights_variables W customers hubs"
    "n_product_move_variables (S\<lparr>model := m\<rparr>)
       = get_n_products_move_variables W customers hubs products"
    "n_flights_hub_to_hub_variables (S\<lparr>model := m\<rparr>) = get_n_flights_hub_to_hub W hubs"
    "n_products_move_hub_to_hub_variables (S\<lparr>model := m\<rparr>)
       = get_n_products_move_hub_to_hub W hubs products"
    by (simp_all add: S_def)
  have o2: "get_objective W (S\<lparr>model := m\<rparr>) customers hubs = get_objective W S customers hubs"
    by (simp add: get_objective_eq[OF f'(1) f'(3)] get_objective_eq[OF f(1) f(3)])
  have "get_demand_constraints W (S\<lparr>model := m\<rparr>) customers products hubs = Inr dc"
    using dc by (simp add: get_demand_constraints_eq[OF f'(2)] get_demand_constraints_eq[OF f(2)])
  moreover have "get_supply_constraints W (S\<lparr>model := m\<rparr>) customers products hubs = Inr sc"
    using sc by (simp add: get_supply_constraints_eq[OF f'(2) f'(4)]
        get_supply_constraints_eq[OF f(2) f(4)])
  moreover have "get_trips_constraints (S\<lparr>model := m\<rparr>) customers products hubs = Inr tc"
    using tc by (simp add: get_trips_constraints_eq[OF f'(2) f'(1)]
        get_trips_constraints_eq[OF f(2) f(1)])
  moreover have "get_trips_hub_to_hub_constraints (S\<lparr>model := m\<rparr>) products hubs = Inr hc"
    using hc by (simp add: get_trips_hub_to_hub_constraints_eq[OF f'(4) f'(3)]
        get_trips_hub_to_hub_constraints_eq[OF f(4) f(3)])
  ultimately have c2: "get_constraints W (S\<lparr>model := m\<rparr>) customers hubs products
              = get_constraints W S customers hubs products"
    by (simp add: cons get_constraints_Inr)
  show ?thesis
    apply (rule exI[of _ "S\<lparr>model := m\<rparr>"])
    apply (simp add: i o2 c2 obj cons)
    apply (simp add: S_def m_def)
    done
qed

lemma init_cases:
  obtains self where "init W customers hubs products cap env = Inr self"
    "environment self = env"
    "max_flight_capacity self = cap"
    "n_flights_variables self = get_n_flights_variables W customers hubs"
    "n_product_move_variables self = get_n_products_move_variables W customers hubs products"
    "n_flights_hub_to_hub_variables self = get_n_flights_hub_to_hub W hubs"
    "n_products_move_hub_to_hub_variables self = get_n_products_move_hub_to_hub W hubs products"
    "decision_variables (model self) =
           dict_values (get_n_flights_variables W customers hubs)
           @ dict_values (get_n_products_move_variables W customers hubs products)
           @ dict_values (get_n_flights_hub_to_hub W hubs)
           @ dict_values (get_n_products_move_hub_to_hub W hubs products)"
    "get_objective W self customers hubs = Inr (objective (model self))"
    "get_constraints W self customers hubs products = Inr (constraints (model self))"
  using init_built[of W customers hubs products cap env] by blast

lemma le_value_ones:
  "le_value \<sigma> (map (\<lambda>x. (v x, 1)) xs) = sum_list (map (\<lambda>x. \<sigma> (v x)) xs)"
  by (simp add: le_value_def comp_def)

section \<open>The demand-satisfaction family\<close>

lemma model_demand_constraints_eq:
  "model_demand_constraints W customers hubs products cap env =
    Inr (map (\<lambda>(customer, product).
                EqualityConstraint
                  (map (\<lambda>hub. (new_ProductsMoveCustomerHub W (customer, hub, product), 1)) hubs)
                  (the (customer_demand W customer product)))
           (filter (\<lambda>(customer, product). customer_demand W customer product \<noteq> None)
              (itertools_product customers products)))"
proof -
  obtain self where s: "init W customers hubs products cap env = Inr self"
    "n_product_move_variables self = get_n_products_move_variables W customers hubs products"
    by (rule init_cases)
  show ?thesis
    by (simp add: model_demand_constraints_def s(1) get_demand_constraints_eq[OF s(2)])
qed

text \<open>
  C1, as the code has it. The demand family of a built model holds one constraint for each
  pair that \<open>itertools.product(customers, products)\<close> yields and whose product is a key
  of the customer's \<open>demand\<close> dictionary (a key mapped to 0 included), in that order.
  Each is an equality constraint, never an inequality: its left side is the sum over the
  hubs of \<open>ProductsMoveCustomerHub(customer, hub, product)\<close> with coefficient 1, its right
  side is \<open>customer.demand[product]\<close>, so an assignment satisfies it exactly when the
  values of these variables add up to the demand.
\<close>

theorem demand_constraints_per_demand_entry:
  "model_demand_constraints W customers hubs products cap env =
    Inr (map (\<lambda>(customer, product).
                EqualityConstraint
                  (map (\<lambda>hub. (new_ProductsMoveCustomerHub W (customer, hub, product), 1)) hubs)
                  (the (customer_demand W customer product)))
           (filter (\<lambda>(customer, product). customer_demand W customer product \<noteq> None)
              (itertools_product customers products)))
   \<and> satisfied \<sigma>
        (EqualityConstraint
           (map (\<lambda>hub. (new_ProductsMoveCustomerHub W (customer, hub, product), 1)) hubs)
           quantity)
      = ((\<Sum>hub\<leftarrow>hubs. \<sigma> (new_ProductsMoveCustomerHub W (customer, hub, product))) = quantity)"
  by (simp add: model_demand_constraints_eq le_value_ones)

text \<open>
  One customer who demands 7 units of product 0 and nothing of product 1, two hubs: the
  family is the single equality over the two hubs' variables for product 0.
\<close>

theorem demand_constraints_per_demand_entry_witness:
  "model_demand_constraints (example_objects [0 \<mapsto> 7]) [0] [0, 1] [0, 1] 5 example_environment
     = Inr [EqualityConstraint
              [(new_ProductsMoveCustomerHub (example_objects [0 \<mapsto> 7]) (0, 0, 0), 1),
               (new_ProductsMoveCustomerHub (example_objects [0 \<mapsto> 7]) (0, 1, 0), 1)] 7]"
  using demand_constraints_per_demand_entry
    [of "example_objects [0 \<mapsto> 7]" "[0]" "[0, 1]" "[0, 1]" 5 example_environment]
  by (simp add: itertools_product_def example_objects_def)

text \<open>
  C1 as stated (one constraint per pair with nonzero demand) fails where a demand
  dictionary maps a product to 0: the pair has no nonzero demand, and the family still
  holds the constraint \<open>sum = 0\<close> for it.
\<close>

theorem demand_constraints_zero_entry_counterexample:
  "model_demand_constraints (example_objects [0 \<mapsto> 0]) [0] [0] [0] 5 example_environment
     = Inr [EqualityConstraint
              [(new_ProductsMoveCustomerHub (example_objects [0 \<mapsto> 0]) (0, 0, 0), 1)] 0]
   \<and> nonzero_demand_pairs (example_objects [0 \<mapsto> 0]) [0] [0] = []"
  by (simp add: model_demand_constraints_eq itertools_product_def nonzero_demand_pairs_def
      demand_of_def example_objects_def)

section \<open>The value of a linear expression\<close>

lemma le_value_append: "le_value \<sigma> (a @ b) = le_value \<sigma> a + le_value \<sigma> b"
  by (simp add: le_value_def)

lemma le_value_le_minus: "le_value \<sigma> (le_minus a b) = le_value \<sigma> a - le_value \<sigma> b"
proof -
  have "le_value \<sigma> (map (\<lambda>(variable, coefficient). (variable, - coefficient)) b)
          = - le_value \<sigma> b"
    by (induction b) (auto simp: le_value_def)
  then show ?thesis by (simp add: le_minus_def le_value_append)
qed

lemma le_value_in_out:
  "le_value \<sigma> (concat (map (\<lambda>x. [(v x, 1), (w x, - 1)]) xs))
     = sum_list (map (\<lambda>x. \<sigma> (v x) - \<sigma> (w x)) xs)"
  by (induction xs) (simp_all add: le_value_def)

lemma le_value_single: "le_value \<sigma> [(v, c)] = c * \<sigma> v"
  by (simp add: le_value_def)

section \<open>The supply-balance family\<close>

lemma model_supply_constraints_eq:
  "model_supply_constraints W customers hubs products cap env =
    Inr (map (\<lambda>(hub, product).
                LE_InequalityConstraint
                  (le_minus
                     (map (\<lambda>customer. (new_ProductsMoveCustomerHub W (customer, hub, product), 1))
                        customers)
                     (concat (map (\<lambda>hub'. [(new_ProductsMoveHubHub W (hub', hub, product), 1),
                                            (new_ProductsMoveHubHub W (hub, hub', product), - 1)])
                        (filter (\<lambda>hub'. hub' \<noteq> hub) hubs))))
                  (hub_get_available_items W hub product))
           (itertools_product hubs products))"
proof -
  obtain self where s: "init W customers hubs products cap env = Inr self"
    "n_product_move_variables self = get_n_products_move_variables W customers hubs products"
    "n_products_move_hub_to_hub_variables self = get_n_products_move_hub_to_hub W hubs products"
    by (rule init_cases)
  show ?thesis
    by (simp add: model_supply_constraints_def s(1) get_supply_constraints_eq[OF s(2) s(3)])
qed

text \<open>
  C2. The supply family of a built model holds one constraint for each pair that
  \<open>itertools.product(hubs, products)\<close> yields, in that order. Each is an upper-bound
  inequality whose left side is \<open>le_1 - le_2\<close>: \<open>le_1\<close> sums
  \<open>ProductsMoveCustomerHub(customer, hub, product)\<close> over the customers, \<open>le_2\<close> adds,
  for every other hub, \<open>ProductsMoveHubHub(hub', hub, product)\<close> with coefficient 1 and
  \<open>ProductsMoveHubHub(hub, hub', product)\<close> with coefficient -1; the right side is
  \<open>hub.get_available_items(product)\<close>. An assignment satisfies it exactly when the
  deliveries to customers minus the net inflow from the other hubs are at most the
  available items.
\<close>

theorem supply_constraints_per_hub_product:
  "model_supply_constraints W customers hubs products cap env =
    Inr (map (\<lambda>(hub, product).
                LE_InequalityConstraint
                  (le_minus
                     (map (\<lambda>customer. (new_ProductsMoveCustomerHub W (customer, hub, product), 1))
                        customers)
                     (concat (map (\<lambda>hub'. [(new_ProductsMoveHubHub W (hub', hub, product), 1),
                                            (new_ProductsMoveHubHub W (hub, hub', product), - 1)])
                        (filter (\<lambda>hub'. hub' \<noteq> hub) hubs))))
                  (hub_get_available_items W hub product))
           (itertools_product hubs products))
   \<and> satisfied \<sigma>
        (LE_InequalityConstraint
           (le_minus
              (map (\<lambda>customer. (new_ProductsMoveCustomerHub W (customer, hub, product), 1))
                 customers)
              (concat (map (\<lambda>hub'. [(new_ProductsMoveHubHub W (hub', hub, product), 1),
                                     (new_ProductsMoveHubHub W (hub, hub', product), - 1)])
                 (filter (\<lambda>hub'. hub' \<noteq> hub) hubs))))
           (hub_get_available_items W hub product))
      = ((\<Sum>customer\<leftarrow>customers. \<sigma> (new_ProductsMoveCustomerHub W (customer, hub, product)))
          - (\<Sum>hub'\<leftarrow>filter (\<lambda>hub'. hub' \<noteq> hub) hubs.
               \<sigma> (new_ProductsMoveHubHub W (hub', hub, product))
               - \<sigma> (new_ProductsMoveHubHub W (hub, hub', product)))
         \<le> hub_get_available_items W hub product)"
  by (simp add: model_supply_constraints_eq le_value_le_minus le_value_ones le_value_in_out)

text \<open>One customer, hubs 0 and 1, one product; every hub has 10 items available.\<close>

theorem supply_constraints_per_hub_product_witness:
  "model_supply_constraints (example_objects [0 \<mapsto> 7]) [0] [0, 1] [0] 5 example_environment
     = Inr [LE_InequalityConstraint
              [(new_ProductsMoveCustomerHub (example_objects [0 \<mapsto> 7]) (0, 0, 0), 1),
               (new_ProductsMoveHubHub (example_objects [0 \<mapsto> 7]) (1, 0, 0), - 1),
               (new_ProductsMoveHubHub (example_objects [0 \<mapsto> 7]) (0, 1, 0), 1)] 10,
            LE_InequalityConstraint
              [(new_ProductsMoveCustomerHub (example_objects [0 \<mapsto> 7]) (0, 1, 0), 1),
               (new_ProductsMoveHubHub (example_objects [0 \<mapsto> 7]) (0, 1, 0), - 1),
               (new_ProductsMoveHubHub (example_objects [0 \<mapsto> 7]) (1, 0, 0), 1)] 10]"
  using supply_constraints_per_hub_product
    [of "example_objects [0 \<mapsto> 7]" "[0]" "[0, 1]" "[0]" 5 example_environment]
  by (simp add: itertools_product_def example_objects_def le_minus_def)

section \<open>The two trip-capacity families\<close>

lemma model_trips_constraints_eq:
  "model_trips_constraints W customers hubs products cap env =
    Inr (map (\<lambda>(customer, hub).
                LE_InequalityConstraint
                  (le_minus
                     (map (\<lambda>product. (new_ProductsMoveCustomerHub W (customer, hub, product), 1))
                        products)
                     [(new_FlightsCustomerHub W (customer, hub), cap)])
                  0)
           (itertools_product customers hubs))"
proof -
  obtain self where s: "init W customers hubs products cap env = Inr self"
    "max_flight_capacity self = cap"
    "n_product_move_variables self = get_n_products_move_variables W customers hubs products"
    "n_flights_variables self = get_n_flights_variables W customers hubs"
    by (rule init_cases)
  show ?thesis
    by (simp add: model_trips_constraints_def s(1) get_trips_constraints_eq[OF s(3) s(4)] s(2))
qed

lemma model_trips_hub_to_hub_constraints_eq:
  "model_trips_hub_to_hub_constraints W customers hubs products cap env =
    Inr (map (\<lambda>(hub1, hub2).
                LE_InequalityConstraint
                  (le_minus
                     (map (\<lambda>product. (new_ProductsMoveHubHub W (hub1, hub2, product), 1))
                        products)
                     [(new_FlightsHubHub W (hub1, hub2), cap)])
                  0)
           (filter (\<lambda>(hub1, hub2). hub1 \<noteq> hub2) (itertools_product hubs hubs)))"
proof -
  obtain self where s: "init W customers hubs products cap env = Inr self"
    "max_flight_capacity self = cap"
    "n_products_move_hub_to_hub_variables self = get_n_products_move_hub_to_hub W hubs products"
    "n_flights_hub_to_hub_variables self = get_n_flights_hub_to_hub W hubs"
    by (rule init_cases)
  show ?thesis
    by (simp add: model_trips_hub_to_hub_constraints_def s(1)
        get_trips_hub_to_hub_constraints_eq[OF s(3) s(4)] s(2))
qed

text \<open>
  C3. The customer-trip family holds one inequality for each pair that
  \<open>itertools.product(customers, hubs)\<close> yields: the sum over the products of
  \<open>ProductsMoveCustomerHub(customer, hub, product)\<close> minus \<open>max_flight_capacity\<close> times
  \<open>FlightsCustomerHub(customer, hub)\<close> is at most 0. The hub-to-hub family holds one
  inequality for each ordered pair of different hubs that \<open>itertools.product(hubs, hubs)\<close>
  yields: the sum over the products of \<open>ProductsMoveHubHub(hub1, hub2, product)\<close> minus
  \<open>max_flight_capacity\<close> times \<open>FlightsHubHub(hub1, hub2)\<close> is at most 0. Both use the
  one capacity \<open>cap\<close> the object was constructed with.
\<close>

theorem trip_capacity_constraints:
  "model_trips_constraints W customers hubs products cap env =
    Inr (map (\<lambda>(customer, hub).
                LE_InequalityConstraint
                  (le_minus
                     (map (\<lambda>product. (new_ProductsMoveCustomerHub W (customer, hub, product), 1))
                        products)
                     [(new_FlightsCustomerHub W (customer, hub), cap)])
                  0)
           (itertools_product customers hubs))
   \<and> model_trips_hub_to_hub_constraints W customers hubs products cap env =
    Inr (map (\<lambda>(hub1, hub2).
                LE_InequalityConstraint
                  (le_minus
                     (map (\<lambda>product. (new_ProductsMoveHubHub W (hub1, hub2, product), 1))
                        products)
                     [(new_FlightsHubHub W (hub1, hub2), cap)])
                  0)
           (filter (\<lambda>(hub1, hub2). hub1 \<noteq> hub2) (itertools_product hubs hubs)))
   \<and> satisfied \<sigma>
        (LE_InequalityConstraint
           (le_minus
              (map (\<lambda>product. (new_ProductsMoveCustomerHub W (customer, hub, product), 1))
                 products)
              [(new_FlightsCustomerHub W (customer, hub), cap)])
           0)
      = ((\<Sum>product\<leftarrow>products. \<sigma> (new_ProductsMoveCustomerHub W (customer, hub, product)))
          - cap * \<sigma> (new_FlightsCustomerHub W (customer, hub)) \<le> 0)
   \<and> satisfied \<sigma>
        (LE_InequalityConstraint
           (le_minus
              (map (\<lambda>product. (new_ProductsMoveHubHub W (hub1, hub2, product), 1)) products)
              [(new_FlightsHubHub W (hub1, hub2), cap)])
           0)
      = ((\<Sum>product\<leftarrow>products. \<sigma> (new_ProductsMoveHubHub W (hub1, hub2, product)))
          - cap * \<sigma> (new_FlightsHubHub W (hub1, hub2)) \<le> 0)"
  by (simp add: model_trips_constraints_eq model_trips_hub_to_hub_constraints_eq
      le_value_le_minus le_value_ones le_value_single)

text \<open>One customer, hubs 0 and 1, one product, capacity 5.\<close>

theorem trip_capacity_constraints_witness:
  "model_trips_constraints (example_objects [0 \<mapsto> 7]) [0] [0, 1] [0] 5 example_environment
     = Inr [LE_InequalityConstraint
              [(new_ProductsMoveCustomerHub (example_objects [0 \<mapsto> 7]) (0, 0, 0), 1),
               (new_FlightsCustomerHub (example_objects [0 \<mapsto> 7]) (0, 0), - 5)] 0,
            LE_InequalityConstraint
              [(new_ProductsMoveCustomerHub (example_objects [0 \<mapsto> 7]) (0, 1, 0), 1),
               (new_FlightsCustomerHub (example_objects [0 \<mapsto> 7]) (0, 1), - 5)] 0]
   \<and> model_trips_hub_to_hub_constraints (example_objects [0 \<mapsto> 7]) [0] [0, 1] [0] 5
       example_environment
     = Inr [LE_InequalityConstraint
              [(new_ProductsMoveHubHub (example_objects [0 \<mapsto> 7]) (0, 1, 0), 1),
               (new_FlightsHubHub (example_objects [0 \<mapsto> 7]) (0, 1), - 5)] 0,
            LE_InequalityConstraint
              [(new_ProductsMoveHubHub (example_objects [0 \<mapsto> 7]) (1, 0, 0), 1),
               (new_FlightsHubHub (example_objects [0 \<mapsto> 7]) (1, 0), - 5)] 0]"
  using trip_capacity_constraints
    [of "example_objects [0 \<mapsto> 7]" "[0]" "[0, 1]" "[0]" 5 example_environment]
  by (simp add: itertools_product_def example_objects_def le_minus_def)

section \<open>The objective\<close>

lemma build_model_objective:
  "\<exists>m. build_model W customers hubs products cap env = Inr m
     \<and> objective m =
         map (\<lambda>(customer, hub). (new_FlightsCustomerHub W (customer, hub),
               get_distance env (hub_location W hub) (customer_location W customer)))
           (itertools_product customers hubs)
         @ map (\<lambda>(hub1, hub2). (new_FlightsHubHub W (hub1, hub2),
               get_distance env (hub_location W hub1) (hub_location W hub2)))
           (filter (\<lambda>(hub1, hub2). hub1 \<noteq> hub2) (itertools_product hubs hubs))"
proof -
  obtain self where s: "init W customers hubs products cap env = Inr self"
    "environment self = env"
    "n_flights_variables self = get_n_flights_variables W customers hubs"
    "n_flights_hub_to_hub_variables self = get_n_flights_hub_to_hub W hubs"
    "get_objective W self customers hubs = Inr (objective (model self))"
    by (rule init_cases)
  show ?thesis
    using s(5) by (simp add: build_model_def s(1) get_objective_eq[OF s(3) s(4)] s(2))
qed


lemma le_value_pairs:
  "le_value \<sigma> (map (\<lambda>(a, b). (v a b, c a b)) xs) = (\<Sum>(a, b)\<leftarrow>xs. c a b * \<sigma> (v a b))"
  by (induction xs) (auto simp: le_value_def)

lemma model_objective_eq:
  "map_sum id objective (build_model W customers hubs products cap env) =
     Inr (map (\<lambda>(customer, hub). (new_FlightsCustomerHub W (customer, hub),
               get_distance env (hub_location W hub) (customer_location W customer)))
           (itertools_product customers hubs)
         @ map (\<lambda>(hub1, hub2). (new_FlightsHubHub W (hub1, hub2),
               get_distance env (hub_location W hub1) (hub_location W hub2)))
           (filter (\<lambda>(hub1, hub2). hub1 \<noteq> hub2) (itertools_product hubs hubs)))"
  using build_model_objective[of W customers hubs products cap env] by auto

text \<open>
  C4. The objective of a built model is the expression with one term
  \<open>get_distance(hub.location, customer.location)\<close> times
  \<open>FlightsCustomerHub(customer, hub)\<close> for each pair of
  \<open>itertools.product(customers, hubs)\<close>, followed by one term
  \<open>get_distance(hub1.location, hub2.location)\<close> times \<open>FlightsHubHub(hub1, hub2)\<close> for each
  ordered pair of different hubs, the distances asked in exactly this argument order.
  Its value under an assignment is the sum of these two sums. With no hubs it is the
  empty expression; with no customers only the hub-to-hub terms remain.
\<close>

theorem objective_is_distance_weighted_flights:
  "map_sum id objective (build_model W customers hubs products cap env) =
     Inr (map (\<lambda>(customer, hub). (new_FlightsCustomerHub W (customer, hub),
               get_distance env (hub_location W hub) (customer_location W customer)))
           (itertools_product customers hubs)
         @ map (\<lambda>(hub1, hub2). (new_FlightsHubHub W (hub1, hub2),
               get_distance env (hub_location W hub1) (hub_location W hub2)))
           (filter (\<lambda>(hub1, hub2). hub1 \<noteq> hub2) (itertools_product hubs hubs)))
   \<and> le_value \<sigma>
         (map (\<lambda>(customer, hub). (new_FlightsCustomerHub W (customer, hub),
               get_distance env (hub_location W hub) (customer_location W customer)))
           (itertools_product customers hubs)
         @ map (\<lambda>(hub1, hub2). (new_FlightsHubHub W (hub1, hub2),
               get_distance env (hub_location W hub1) (hub_location W hub2)))
           (filter (\<lambda>(hub1, hub2). hub1 \<noteq> hub2) (itertools_product hubs hubs)))
       = (\<Sum>(customer, hub)\<leftarrow>itertools_product customers hubs.
            get_distance env (hub_location W hub) (customer_location W customer)
            * \<sigma> (new_FlightsCustomerHub W (customer, hub)))
         + (\<Sum>(hub1, hub2)\<leftarrow>filter (\<lambda>(hub1, hub2). hub1 \<noteq> hub2) (itertools_product hubs hubs).
            get_distance env (hub_location W hub1) (hub_location W hub2)
            * \<sigma> (new_FlightsHubHub W (hub1, hub2)))
   \<and> map_sum id objective (build_model W customers [] products cap env) = Inr LinearExpression
   \<and> map_sum id objective (build_model W [] hubs products cap env) =
       Inr (map (\<lambda>(hub1, hub2). (new_FlightsHubHub W (hub1, hub2),
               get_distance env (hub_location W hub1) (hub_location W hub2)))
           (filter (\<lambda>(hub1, hub2). hub1 \<noteq> hub2) (itertools_product hubs hubs)))"
  by (simp add: model_objective_eq le_value_append le_value_pairs)
     (simp add: itertools_product_def LinearExpression_def)

text \<open>
  One customer at location 100, hubs at locations 0 and 1, and a distance that is not
  symmetric (\<open>a + 2 b\<close>): the coefficients show the order of the arguments.
\<close>

theorem objective_is_distance_weighted_flights_witness:
  "map_sum id objective
     (build_model (example_objects [0 \<mapsto> 7]) [0] [0, 1] [0] 5 example_environment) =
     Inr [(new_FlightsCustomerHub (example_objects [0 \<mapsto> 7]) (0, 0), 200),
          (new_FlightsCustomerHub (example_objects [0 \<mapsto> 7]) (0, 1), 201),
          (new_FlightsHubHub (example_objects [0 \<mapsto> 7]) (0, 1), 2),
          (new_FlightsHubHub (example_objects [0 \<mapsto> 7]) (1, 0), 1)]"
  using objective_is_distance_weighted_flights
    [of "example_objects [0 \<mapsto> 7]" "[0]" "[0, 1]" "[0]" 5 example_environment]
  by (simp add: itertools_product_def example_objects_def example_environment_def)

section \<open>The decision variables of a built model\<close>

lemma set_insertion_order [simp]: "set (insertion_order ks) = set ks"
  by (simp add: insertion_order_def)

lemma distinct_insertion_order [simp]: "distinct (insertion_order ks)"
  by (simp add: insertion_order_def)

lemma dict_values_comprehension_order:
  "dict_values (dict_comprehension g ks) = map g (insertion_order ks)"
  by (simp add: dict_values_comprehension insertion_order_def)

lemma model_decision_variables_eq:
  "map_sum id decision_variables (build_model W customers hubs products cap env) =
     Inr (map (new_FlightsCustomerHub W) (insertion_order (itertools_product customers hubs))
          @ map (new_ProductsMoveCustomerHub W)
              (insertion_order (itertools_product3 customers hubs products))
          @ map (new_FlightsHubHub W)
              (insertion_order (filter (\<lambda>(hub1, hub2). hub1 \<noteq> hub2)
                 (itertools_product hubs hubs)))
          @ map (new_ProductsMoveHubHub W)
              (insertion_order (filter (\<lambda>(hub1, hub2, product). hub1 \<noteq> hub2)
                 (itertools_product3 hubs hubs products))))"
proof -
  obtain self where s: "init W customers hubs products cap env = Inr self"
    "decision_variables (model self) =
           dict_values (get_n_flights_variables W customers hubs)
           @ dict_values (get_n_products_move_variables W customers hubs products)
           @ dict_values (get_n_flights_hub_to_hub W hubs)
           @ dict_values (get_n_products_move_hub_to_hub W hubs products)"
    by (rule init_cases)
  show ?thesis
    by (simp add: build_model_def s get_n_flights_variables_def
        get_n_products_move_variables_def get_n_flights_hub_to_hub_def
        get_n_products_move_hub_to_hub_def dict_values_comprehension_order)
qed

lemma build_model_variables:
  obtains m where "build_model W customers hubs products cap env = Inr m"
    "decision_variables m =
       map (new_FlightsCustomerHub W) (insertion_order (itertools_product customers hubs))
          @ map (new_ProductsMoveCustomerHub W)
              (insertion_order (itertools_product3 customers hubs products))
          @ map (new_FlightsHubHub W)
              (insertion_order (filter (\<lambda>(hub1, hub2). hub1 \<noteq> hub2)
                 (itertools_product hubs hubs)))
          @ map (new_ProductsMoveHubHub W)
              (insertion_order (filter (\<lambda>(hub1, hub2, product). hub1 \<noteq> hub2)
                 (itertools_product3 hubs hubs products)))"
  using model_decision_variables_eq[of W customers hubs products cap env]
  by (cases "build_model W customers hubs products cap env") auto

text \<open>
  C5. Every decision variable of a built model, of any of the four families, has lower
  bound 0. A \<open>ProductsMoveCustomerHub(customer, hub, product)\<close> variable has the upper
  bound \<open>customer.demand[product]\<close> when the product is a key of the customer's demand
  and 0 when it is not. No \<open>FlightsHubHub\<close> and no \<open>ProductsMoveHubHub\<close> variable pairs a
  hub with itself.
\<close>

theorem variable_bounds:
  "\<exists>m. build_model W customers hubs products cap env = Inr m
     \<and> (\<forall>variable \<in> set (decision_variables m).
           lower_bound variable = 0
           \<and> (case data variable of
                 ProductsMoveCustomerHub customer hub product \<Rightarrow>
                   upper_bound variable = Some (demand_of W customer product)
               | FlightsHubHub hub1 hub2 \<Rightarrow> hub1 \<noteq> hub2
               | ProductsMoveHubHub hub1 hub2 product \<Rightarrow> hub1 \<noteq> hub2
               | FlightsCustomerHub customer hub \<Rightarrow> True))"
proof -
  obtain m where m: "build_model W customers hubs products cap env = Inr m"
    "decision_variables m =
       map (new_FlightsCustomerHub W) (insertion_order (itertools_product customers hubs))
          @ map (new_ProductsMoveCustomerHub W)
              (insertion_order (itertools_product3 customers hubs products))
          @ map (new_FlightsHubHub W)
              (insertion_order (filter (\<lambda>(hub1, hub2). hub1 \<noteq> hub2)
                 (itertools_product hubs hubs)))
          @ map (new_ProductsMoveHubHub W)
              (insertion_order (filter (\<lambda>(hub1, hub2, product). hub1 \<noteq> hub2)
                 (itertools_product3 hubs hubs products)))"
    by (rule build_model_variables)
  show ?thesis
    apply (rule exI[of _ m])
    apply (simp add: m)
    apply (auto simp: new_FlightsCustomerHub_def new_ProductsMoveCustomerHub_def
        new_FlightsHubHub_def new_ProductsMoveHubHub_def demand_of_def split: option.splits)
    done
qed

text \<open>
  A customer who demands 7 units of product 0 and nothing of product 1: the variable for
  product 0 is capped at 7, the one for product 1 at 0.
\<close>

theorem variable_bounds_witness:
  "\<exists>m. build_model (example_objects [0 \<mapsto> 7]) [0] [0, 1] [0, 1] 5 example_environment = Inr m
     \<and> new_ProductsMoveCustomerHub (example_objects [0 \<mapsto> 7]) (0, 1, 0)
           \<in> set (decision_variables m)
     \<and> upper_bound (new_ProductsMoveCustomerHub (example_objects [0 \<mapsto> 7]) (0, 1, 0)) = Some 7
     \<and> new_ProductsMoveCustomerHub (example_objects [0 \<mapsto> 7]) (0, 1, 1)
           \<in> set (decision_variables m)
     \<and> upper_bound (new_ProductsMoveCustomerHub (example_objects [0 \<mapsto> 7]) (0, 1, 1)) = Some 0
     \<and> lower_bound (new_ProductsMoveCustomerHub (example_objects [0 \<mapsto> 7]) (0, 1, 1)) = 0"
proof -
  let ?W = "example_objects [0 \<mapsto> 7]"
  obtain m where m: "build_model ?W [0] [0, 1] [0, 1] 5 example_environment = Inr m"
    and b: "\<forall>variable \<in> set (decision_variables m).
           lower_bound variable = 0
           \<and> (case data variable of
                 ProductsMoveCustomerHub customer hub product \<Rightarrow>
                   upper_bound variable = Some (demand_of ?W customer product)
               | FlightsHubHub hub1 hub2 \<Rightarrow> hub1 \<noteq> hub2
               | ProductsMoveHubHub hub1 hub2 product \<Rightarrow> hub1 \<noteq> hub2
               | FlightsCustomerHub customer hub \<Rightarrow> True)"
    using variable_bounds[of ?W "[0]" "[0, 1]" "[0, 1]" 5 example_environment] by blast
  have v: "new_ProductsMoveCustomerHub ?W (0, 1, p) \<in> set (decision_variables m)"
    if "p = 0 \<or> p = 1" for p
    using model_decision_variables_eq
      [of ?W "[0]" "[0, 1]" "[0, 1]" 5 example_environment, unfolded m] that
    by auto
  have d: "data (new_ProductsMoveCustomerHub ?W (0, 1, p)) = ProductsMoveCustomerHub 0 1 p" for p
    by (simp add: new_ProductsMoveCustomerHub_def)
  have "demand_of ?W 0 0 = 7" "demand_of ?W 0 1 = 0"
    by (simp_all add: demand_of_def example_objects_def)
  then have "upper_bound (new_ProductsMoveCustomerHub ?W (0, 1, 0)) = Some 7"
    "upper_bound (new_ProductsMoveCustomerHub ?W (0, 1, 1)) = Some 0"
    "lower_bound (new_ProductsMoveCustomerHub ?W (0, 1, 1)) = 0"
    using bspec[OF b v[of 0]] bspec[OF b v[of 1]] unfolding d by simp_all
  then show ?thesis
    using m v by blast
qed

text \<open>
  C10. Only the \<open>ProductsMoveCustomerHub\<close> variables of a built model carry an upper
  bound. Every \<open>FlightsCustomerHub\<close>, \<open>FlightsHubHub\<close> and \<open>ProductsMoveHubHub\<close> variable
  has lower bound 0 and no upper bound, so no variable bound limits what a hub sends to
  another hub.
\<close>

theorem only_customer_moves_are_capped:
  "\<exists>m. build_model W customers hubs products cap env = Inr m
     \<and> (\<forall>variable \<in> set (decision_variables m).
           case data variable of
             ProductsMoveCustomerHub customer hub product \<Rightarrow> upper_bound variable \<noteq> None
           | _ \<Rightarrow> lower_bound variable = 0 \<and> upper_bound variable = None)"
proof -
  obtain m where m: "build_model W customers hubs products cap env = Inr m"
    "decision_variables m =
       map (new_FlightsCustomerHub W) (insertion_order (itertools_product customers hubs))
          @ map (new_ProductsMoveCustomerHub W)
              (insertion_order (itertools_product3 customers hubs products))
          @ map (new_FlightsHubHub W)
              (insertion_order (filter (\<lambda>(hub1, hub2). hub1 \<noteq> hub2)
                 (itertools_product hubs hubs)))
          @ map (new_ProductsMoveHubHub W)
              (insertion_order (filter (\<lambda>(hub1, hub2, product). hub1 \<noteq> hub2)
                 (itertools_product3 hubs hubs products)))"
    by (rule build_model_variables)
  show ?thesis
    apply (rule exI[of _ m])
    apply (simp add: m)
    apply (auto simp: new_FlightsCustomerHub_def new_ProductsMoveCustomerHub_def
        new_FlightsHubHub_def new_ProductsMoveHubHub_def)
    done
qed

text \<open>The variable for product 0 moved from hub 0 to hub 1 has no upper bound.\<close>

theorem only_customer_moves_are_capped_witness:
  "\<exists>m. build_model (example_objects [0 \<mapsto> 7]) [0] [0, 1] [0] 5 example_environment = Inr m
     \<and> new_ProductsMoveHubHub (example_objects [0 \<mapsto> 7]) (0, 1, 0) \<in> set (decision_variables m)
     \<and> upper_bound (new_ProductsMoveHubHub (example_objects [0 \<mapsto> 7]) (0, 1, 0)) = None
     \<and> lower_bound (new_ProductsMoveHubHub (example_objects [0 \<mapsto> 7]) (0, 1, 0)) = 0"
proof -
  let ?W = "example_objects [0 \<mapsto> 7]"
  obtain m where m: "build_model ?W [0] [0, 1] [0] 5 example_environment = Inr m"
    and b: "\<forall>variable \<in> set (decision_variables m).
           case data variable of
             ProductsMoveCustomerHub customer hub product \<Rightarrow> upper_bound variable \<noteq> None
           | _ \<Rightarrow> lower_bound variable = 0 \<and> upper_bound variable = None"
    using only_customer_moves_are_capped[of ?W "[0]" "[0, 1]" "[0]" 5 example_environment]
    by blast
  have v: "new_ProductsMoveHubHub ?W (0, 1, 0) \<in> set (decision_variables m)"
    using model_decision_variables_eq
      [of ?W "[0]" "[0, 1]" "[0]" 5 example_environment, unfolded m]
    by auto
  have d: "data (new_ProductsMoveHubHub ?W (0, 1, 0)) = ProductsMoveHubHub 0 1 0"
    by (simp add: new_ProductsMoveHubHub_def)
  have "lower_bound (new_ProductsMoveHubHub ?W (0, 1, 0)) = 0
      \<and> upper_bound (new_ProductsMoveHubHub ?W (0, 1, 0)) = None"
    using bspec[OF b v] unfolding d by simp
  then show ?thesis
    using m v by blast
qed

text \<open>
  C9. On a built object the constraint list of the model is the demand constraints, then
  the supply constraints, then the customer-trip constraints, then the hub-to-hub trip
  constraints, each as its function returns it. The variable list is the values of the
  four dictionaries in the order flights customer-hub, products customer-hub, flights
  hub-hub, products hub-hub; each dictionary holds the variables of its own family, one
  for every key, in the order the keys were first produced.
\<close>

theorem model_lists_are_ordered_concatenations:
  "\<exists>self demand_constraints supply_constraints trips_constraints trips_hub_hub_constraints.
     init W customers hubs products cap env = Inr self
     \<and> get_demand_constraints W self customers products hubs = Inr demand_constraints
     \<and> get_supply_constraints W self customers products hubs = Inr supply_constraints
     \<and> get_trips_constraints self customers products hubs = Inr trips_constraints
     \<and> get_trips_hub_to_hub_constraints self products hubs = Inr trips_hub_hub_constraints
     \<and> constraints (model self) =
           demand_constraints @ supply_constraints @ trips_constraints
           @ trips_hub_hub_constraints
     \<and> decision_variables (model self) =
           dict_values (n_flights_variables self)
           @ dict_values (n_product_move_variables self)
           @ dict_values (n_flights_hub_to_hub_variables self)
           @ dict_values (n_products_move_hub_to_hub_variables self)
     \<and> dict_values (n_flights_variables self) =
           map (new_FlightsCustomerHub W) (insertion_order (itertools_product customers hubs))
     \<and> dict_values (n_product_move_variables self) =
           map (new_ProductsMoveCustomerHub W)
             (insertion_order (itertools_product3 customers hubs products))
     \<and> dict_values (n_flights_hub_to_hub_variables self) =
           map (new_FlightsHubHub W)
             (insertion_order (filter (\<lambda>(hub1, hub2). hub1 \<noteq> hub2)
                (itertools_product hubs hubs)))
     \<and> dict_values (n_products_move_hub_to_hub_variables self) =
           map (new_ProductsMoveHubHub W)
             (insertion_order (filter (\<lambda>(hub1, hub2, product). hub1 \<noteq> hub2)
                (itertools_product3 hubs hubs products)))"
proof -
  obtain self where s: "init W customers hubs products cap env = Inr self"
    "n_flights_variables self = get_n_flights_variables W customers hubs"
    "n_product_move_variables self = get_n_products_move_variables W customers hubs products"
    "n_flights_hub_to_hub_variables self = get_n_flights_hub_to_hub W hubs"
    "n_products_move_hub_to_hub_variables self = get_n_products_move_hub_to_hub W hubs products"
    "decision_variables (model self) =
           dict_values (get_n_flights_variables W customers hubs)
           @ dict_values (get_n_products_move_variables W customers hubs products)
           @ dict_values (get_n_flights_hub_to_hub W hubs)
           @ dict_values (get_n_products_move_hub_to_hub W hubs products)"
    "get_constraints W self customers hubs products = Inr (constraints (model self))"
    by (rule init_cases)
  obtain dc where dc: "get_demand_constraints W self customers products hubs = Inr dc"
    using get_demand_constraints_eq[OF s(3)] by blast
  obtain sc where sc: "get_supply_constraints W self customers products hubs = Inr sc"
    using get_supply_constraints_eq[OF s(3) s(5)] by blast
  obtain tc where tc: "get_trips_constraints self customers products hubs = Inr tc"
    using get_trips_constraints_eq[OF s(3) s(2)] by blast
  obtain hc where hc: "get_trips_hub_to_hub_constraints self products hubs = Inr hc"
    using get_trips_hub_to_hub_constraints_eq[OF s(5) s(4)] by blast
  have c: "constraints (model self) = dc @ sc @ tc @ hc"
    using get_constraints_Inr[OF dc sc tc hc] s(7) by simp
  have v: "dict_values (n_flights_variables self) =
           map (new_FlightsCustomerHub W) (insertion_order (itertools_product customers hubs))"
    "dict_values (n_product_move_variables self) =
           map (new_ProductsMoveCustomerHub W)
             (insertion_order (itertools_product3 customers hubs products))"
    "dict_values (n_flights_hub_to_hub_variables self) =
           map (new_FlightsHubHub W)
             (insertion_order (filter (\<lambda>(hub1, hub2). hub1 \<noteq> hub2)
                (itertools_product hubs hubs)))"
    "dict_values (n_products_move_hub_to_hub_variables self) =
           map (new_ProductsMoveHubHub W)
             (insertion_order (filter (\<lambda>(hub1, hub2, product). hub1 \<noteq> hub2)
                (itertools_product3 hubs hubs products)))"
    by (simp_all add: s get_n_flights_variables_def
        get_n_products_move_variables_def get_n_flights_hub_to_hub_def
        get_n_products_move_hub_to_hub_def dict_values_comprehension_order)
  have d: "decision_variables (model self) =
           dict_values (n_flights_variables self)
           @ dict_values (n_product_move_variables self)
           @ dict_values (n_flights_hub_to_hub_variables self)
           @ dict_values (n_products_move_hub_to_hub_variables self)"
    by (simp add: s)
  show ?thesis
    using s(1) dc sc tc hc c d v by blast
qed

text \<open>One customer, hubs 0 and 1, one product: two variables of each family.\<close>

theorem model_lists_are_ordered_concatenations_witness:
  "\<exists>self. init (example_objects [0 \<mapsto> 7]) [0] [0, 1] [0] 5 example_environment = Inr self
     \<and> decision_variables (model self) =
         [new_FlightsCustomerHub (example_objects [0 \<mapsto> 7]) (0, 0),
          new_FlightsCustomerHub (example_objects [0 \<mapsto> 7]) (0, 1),
          new_ProductsMoveCustomerHub (example_objects [0 \<mapsto> 7]) (0, 0, 0),
          new_ProductsMoveCustomerHub (example_objects [0 \<mapsto> 7]) (0, 1, 0),
          new_FlightsHubHub (example_objects [0 \<mapsto> 7]) (0, 1),
          new_FlightsHubHub (example_objects [0 \<mapsto> 7]) (1, 0),
          new_ProductsMoveHubHub (example_objects [0 \<mapsto> 7]) (0, 1, 0),
          new_ProductsMoveHubHub (example_objects [0 \<mapsto> 7]) (1, 0, 0)]"
proof -
  let ?W = "example_objects [0 \<mapsto> 7]"
  obtain self where s: "init ?W [0] [0, 1] [0] 5 example_environment = Inr self"
    "decision_variables (model self) =
           dict_values (n_flights_variables self)
           @ dict_values (n_product_move_variables self)
           @ dict_values (n_flights_hub_to_hub_variables self)
           @ dict_values (n_products_move_hub_to_hub_variables self)"
    "dict_values (n_flights_variables self) =
           map (new_FlightsCustomerHub ?W) (insertion_order (itertools_product [0] [0, 1]))"
    "dict_values (n_product_move_variables self) =
           map (new_ProductsMoveCustomerHub ?W)
             (insertion_order (itertools_product3 [0] [0, 1] [0]))"
    "dict_values (n_flights_hub_to_hub_variables self) =
           map (new_FlightsHubHub ?W)
             (insertion_order (filter (\<lambda>(hub1, hub2). hub1 \<noteq> hub2)
                (itertools_product [0, 1] [0, 1])))"
    "dict_values (n_products_move_hub_to_hub_variables self) =
           map (new_ProductsMoveHubHub ?W)
             (insertion_order (filter (\<lambda>(hub1, hub2, product). hub1 \<noteq> hub2)
                (itertools_product3 [0, 1] [0, 1] [0])))"
    using model_lists_are_ordered_concatenations
      [of ?W "[0]" "[0, 1]" "[0]" 5 example_environment]
    by blast
  have "decision_variables (model self) =
         [new_FlightsCustomerHub ?W (0, 0),
          new_FlightsCustomerHub ?W (0, 1),
          new_ProductsMoveCustomerHub ?W (0, 0, 0),
          new_ProductsMoveCustomerHub ?W (0, 1, 0),
          new_FlightsHubHub ?W (0, 1),
          new_FlightsHubHub ?W (1, 0),
          new_ProductsMoveHubHub ?W (0, 1, 0),
          new_ProductsMoveHubHub ?W (1, 0, 0)]"
    unfolding s(2-6)
    by (simp add: insertion_order_def itertools_product_def itertools_product3_def)
  with s(1) show ?thesis by blast
qed

section \<open>The solution interpreter\<close>

lemma get_trips_loop_eq:
  "get_trips_loop solution trips_hub_to_customer trips_hub_to_hub =
     \<lparr>hub_to_customer = trips_hub_to_customer @
        concat (map (\<lambda>(variable, value).
          case data variable of
            ProductsMoveCustomerHub customer hub product \<Rightarrow>
              if value \<noteq> 0 then
                [\<lparr>origin = Hub hub, destination = Customer customer,
                  product_type = product, product_quantity = value\<rparr>]
              else []
          | _ \<Rightarrow> []) solution),
      hub_to_hub = trips_hub_to_hub @
        concat (map (\<lambda>(variable, value).
          case data variable of
            ProductsMoveHubHub hub1 hub2 product \<Rightarrow>
              if value \<noteq> 0 then
                [\<lparr>origin = Hub hub1, destination = Hub hub2,
                  product_type = product, product_quantity = value\<rparr>]
              else []
          | _ \<Rightarrow> []) solution)\<rparr>"
proof (induction solution arbitrary: trips_hub_to_customer trips_hub_to_hub)
  case Nil
  show ?case by simp
next
  case (Cons item solution)
  obtain variable "value" where item: "item = (variable, value)"
    by (cases item)
  show ?case
    unfolding item
    by (cases "data variable") (simp_all add: Cons.IH)
qed

lemma get_trips_eq:
  "get_trips solution =
     \<lparr>hub_to_customer =
        concat (map (\<lambda>(variable, value).
          case data variable of
            ProductsMoveCustomerHub customer hub product \<Rightarrow>
              if value \<noteq> 0 then
                [\<lparr>origin = Hub hub, destination = Customer customer,
                  product_type = product, product_quantity = value\<rparr>]
              else []
          | _ \<Rightarrow> []) solution),
      hub_to_hub =
        concat (map (\<lambda>(variable, value).
          case data variable of
            ProductsMoveHubHub hub1 hub2 product \<Rightarrow>
              if value \<noteq> 0 then
                [\<lparr>origin = Hub hub1, destination = Hub hub2,
                  product_type = product, product_quantity = value\<rparr>]
              else []
          | _ \<Rightarrow> []) solution)\<rparr>"
  by (simp add: get_trips_def get_trips_loop_eq)

text \<open>
  C6. For every solution dictionary, \<open>_get_trips\<close> returns, in the order of the items,
  one trip in \<open>hub_to_customer\<close> for each \<open>ProductsMoveCustomerHub\<close> variable whose value
  is not 0 (origin the hub, destination the customer, product and quantity as stored in
  the variable and assigned by the solver) and one trip in \<open>hub_to_hub\<close> for each
  \<open>ProductsMoveHubHub\<close> variable whose value is not 0 (origin \<open>hub1\<close>, destination
  \<open>hub2\<close>). Any other item, a flights variable or a value 0, adds nothing; so each list
  is as long as the number of its nonzero move variables.
\<close>

theorem trips_from_nonzero_move_variables:
  "get_trips solution =
     \<lparr>hub_to_customer =
        concat (map (\<lambda>(variable, value).
          case data variable of
            ProductsMoveCustomerHub customer hub product \<Rightarrow>
              if value \<noteq> 0 then
                [\<lparr>origin = Hub hub, destination = Customer customer,
                  product_type = product, product_quantity = value\<rparr>]
              else []
          | _ \<Rightarrow> []) solution),
      hub_to_hub =
        concat (map (\<lambda>(variable, value).
          case data variable of
            ProductsMoveHubHub hub1 hub2 product \<Rightarrow>
              if value \<noteq> 0 then
                [\<lparr>origin = Hub hub1, destination = Hub hub2,
                  product_type = product, product_quantity = value\<rparr>]
              else []
          | _ \<Rightarrow> []) solution)\<rparr>
   \<and> length (hub_to_customer (get_trips solution)) =
       length (filter (\<lambda>(variable, value). value \<noteq> 0 \<and>
                 (\<exists>customer hub product.
                    data variable = ProductsMoveCustomerHub customer hub product)) solution)
   \<and> length (hub_to_hub (get_trips solution)) =
       length (filter (\<lambda>(variable, value). value \<noteq> 0 \<and>
                 (\<exists>hub1 hub2 product.
                    data variable = ProductsMoveHubHub hub1 hub2 product)) solution)"
proof -
  have 1: "length (hub_to_customer (get_trips solution)) =
       length (filter (\<lambda>(variable, value). value \<noteq> 0 \<and>
                 (\<exists>customer hub product.
                    data variable = ProductsMoveCustomerHub customer hub product)) solution)"
    unfolding get_trips_eq
    by (induction solution) (auto split: variable_data.splits)
  have 2: "length (hub_to_hub (get_trips solution)) =
       length (filter (\<lambda>(variable, value). value \<noteq> 0 \<and>
                 (\<exists>hub1 hub2 product.
                    data variable = ProductsMoveHubHub hub1 hub2 product)) solution)"
    unfolding get_trips_eq
    by (induction solution) (auto split: variable_data.splits)
  show ?thesis
    using get_trips_eq[of solution] 1 2 by simp
qed

text \<open>
  A solution with a variable of every family: only the two move variables with a nonzero
  value become trips.
\<close>

theorem trips_from_nonzero_move_variables_witness:
  "get_trips
     [(new_FlightsCustomerHub (example_objects [0 \<mapsto> 7]) (0, 0), 2),
      (new_ProductsMoveCustomerHub (example_objects [0 \<mapsto> 7]) (0, 0, 0), 7),
      (new_ProductsMoveCustomerHub (example_objects [0 \<mapsto> 7]) (0, 1, 0), 0),
      (new_FlightsHubHub (example_objects [0 \<mapsto> 7]) (0, 1), 1),
      (new_ProductsMoveHubHub (example_objects [0 \<mapsto> 7]) (0, 1, 0), 3),
      (new_ProductsMoveHubHub (example_objects [0 \<mapsto> 7]) (1, 0, 0), 0)]
   = \<lparr>hub_to_customer =
        [\<lparr>origin = Hub 0, destination = Customer 0, product_type = 0, product_quantity = 7\<rparr>],
      hub_to_hub =
        [\<lparr>origin = Hub 0, destination = Hub 1, product_type = 0, product_quantity = 3\<rparr>]\<rparr>"
  using trips_from_nonzero_move_variables
     [of "[(new_FlightsCustomerHub (example_objects [0 \<mapsto> 7]) (0, 0), 2),
      (new_ProductsMoveCustomerHub (example_objects [0 \<mapsto> 7]) (0, 0, 0), 7),
      (new_ProductsMoveCustomerHub (example_objects [0 \<mapsto> 7]) (0, 1, 0), 0),
      (new_FlightsHubHub (example_objects [0 \<mapsto> 7]) (0, 1), 1),
      (new_ProductsMoveHubHub (example_objects [0 \<mapsto> 7]) (0, 1, 0), 3),
      (new_ProductsMoveHubHub (example_objects [0 \<mapsto> 7]) (1, 0, 0), 0)]"]
  by (simp add: new_FlightsCustomerHub_def new_ProductsMoveCustomerHub_def
      new_FlightsHubHub_def new_ProductsMoveHubHub_def)

section \<open>Empty instances\<close>

lemma build_model_closed:
  obtains m where "build_model W customers hubs products cap env = Inr m"
    "decision_variables m =
       map (new_FlightsCustomerHub W) (insertion_order (itertools_product customers hubs))
          @ map (new_ProductsMoveCustomerHub W)
              (insertion_order (itertools_product3 customers hubs products))
          @ map (new_FlightsHubHub W)
              (insertion_order (filter (\<lambda>(hub1, hub2). hub1 \<noteq> hub2)
                 (itertools_product hubs hubs)))
          @ map (new_ProductsMoveHubHub W)
              (insertion_order (filter (\<lambda>(hub1, hub2, product). hub1 \<noteq> hub2)
                 (itertools_product3 hubs hubs products)))"
    "Inr (objective m) = map_sum id objective (build_model W customers hubs products cap env)"
    "\<exists>dc sc tc hc.
       model_demand_constraints W customers hubs products cap env = Inr dc
       \<and> model_supply_constraints W customers hubs products cap env = Inr sc
       \<and> model_trips_constraints W customers hubs products cap env = Inr tc
       \<and> model_trips_hub_to_hub_constraints W customers hubs products cap env = Inr hc
       \<and> constraints m = dc @ sc @ tc @ hc"
proof -
  obtain self where s: "init W customers hubs products cap env = Inr self"
    "n_flights_variables self = get_n_flights_variables W customers hubs"
    "n_product_move_variables self = get_n_products_move_variables W customers hubs products"
    "n_flights_hub_to_hub_variables self = get_n_flights_hub_to_hub W hubs"
    "n_products_move_hub_to_hub_variables self = get_n_products_move_hub_to_hub W hubs products"
    "get_constraints W self customers hubs products = Inr (constraints (model self))"
    by (rule init_cases)
  obtain dc where dc: "get_demand_constraints W self customers products hubs = Inr dc"
    using get_demand_constraints_eq[OF s(3)] by blast
  obtain sc where sc: "get_supply_constraints W self customers products hubs = Inr sc"
    using get_supply_constraints_eq[OF s(3) s(5)] by blast
  obtain tc where tc: "get_trips_constraints self customers products hubs = Inr tc"
    using get_trips_constraints_eq[OF s(3) s(2)] by blast
  obtain hc where hc: "get_trips_hub_to_hub_constraints self products hubs = Inr hc"
    using get_trips_hub_to_hub_constraints_eq[OF s(5) s(4)] by blast
  have c: "constraints (model self) = dc @ sc @ tc @ hc"
    using get_constraints_Inr[OF dc sc tc hc] s(6) by simp
  have b: "build_model W customers hubs products cap env = Inr (model self)"
    by (simp add: build_model_def s(1))
  have v: "decision_variables (model self) =
       map (new_FlightsCustomerHub W) (insertion_order (itertools_product customers hubs))
          @ map (new_ProductsMoveCustomerHub W)
              (insertion_order (itertools_product3 customers hubs products))
          @ map (new_FlightsHubHub W)
              (insertion_order (filter (\<lambda>(hub1, hub2). hub1 \<noteq> hub2)
                 (itertools_product hubs hubs)))
          @ map (new_ProductsMoveHubHub W)
              (insertion_order (filter (\<lambda>(hub1, hub2, product). hub1 \<noteq> hub2)
                 (itertools_product3 hubs hubs products)))"
    using model_decision_variables_eq[of W customers hubs products cap env] by (simp add: b)
  have f: "\<exists>dc sc tc hc.
       model_demand_constraints W customers hubs products cap env = Inr dc
       \<and> model_supply_constraints W customers hubs products cap env = Inr sc
       \<and> model_trips_constraints W customers hubs products cap env = Inr tc
       \<and> model_trips_hub_to_hub_constraints W customers hubs products cap env = Inr hc
       \<and> constraints (model self) = dc @ sc @ tc @ hc"
    using dc sc tc hc c
    by (simp add: model_demand_constraints_def model_supply_constraints_def
        model_trips_constraints_def model_trips_hub_to_hub_constraints_def s(1))
  show thesis
    by (rule that[OF b v _ f]) (simp add: b)
qed

lemma itertools_product_Nil [simp]:
  "itertools_product [] ys = []" "itertools_product xs [] = []"
  by (simp_all add: itertools_product_def)

lemma insertion_order_Nil [simp]: "insertion_order [] = []"
  by (simp add: insertion_order_def)

lemma concat_map_all_Nil: "(\<And>x. x \<in> set xs \<Longrightarrow> f x = []) \<Longrightarrow> concat (map f xs) = []"
  by (induction xs) simp_all

lemma build_model_no_hubs:
  "build_model W customers [] products cap env =
     Inr \<lparr>decision_variables = [], objective = [],
          constraints =
            map (\<lambda>(customer, product).
                   EqualityConstraint [] (the (customer_demand W customer product)))
              (filter (\<lambda>(customer, product). customer_demand W customer product \<noteq> None)
                 (itertools_product customers products))\<rparr>"
proof -
  obtain m where m: "build_model W customers [] products cap env = Inr m"
    and v: "decision_variables m =
       map (new_FlightsCustomerHub W) (insertion_order (itertools_product customers []))
          @ map (new_ProductsMoveCustomerHub W)
              (insertion_order (itertools_product3 customers [] products))
          @ map (new_FlightsHubHub W)
              (insertion_order (filter (\<lambda>(hub1, hub2). hub1 \<noteq> hub2)
                 (itertools_product [] [])))
          @ map (new_ProductsMoveHubHub W)
              (insertion_order (filter (\<lambda>(hub1, hub2, product). hub1 \<noteq> hub2)
                 (itertools_product3 [] [] products)))"
    and ob: "Inr (objective m) = map_sum id objective (build_model W customers [] products cap env)"
    and "\<exists>dc sc tc hc.
       model_demand_constraints W customers [] products cap env = Inr dc
       \<and> model_supply_constraints W customers [] products cap env = Inr sc
       \<and> model_trips_constraints W customers [] products cap env = Inr tc
       \<and> model_trips_hub_to_hub_constraints W customers [] products cap env = Inr hc
       \<and> constraints m = dc @ sc @ tc @ hc"
    by (rule build_model_closed)
  then obtain dc sc tc hc where
    f: "model_demand_constraints W customers [] products cap env = Inr dc"
       "model_supply_constraints W customers [] products cap env = Inr sc"
       "model_trips_constraints W customers [] products cap env = Inr tc"
       "model_trips_hub_to_hub_constraints W customers [] products cap env = Inr hc"
    and c: "constraints m = dc @ sc @ tc @ hc"
    by blast
  have o: "objective m = []"
    using ob by (simp add: model_objective_eq)
  have v': "decision_variables m = []"
    unfolding v by (simp add: itertools_product3_def)
  have c': "constraints m =
            map (\<lambda>(customer, product).
                   EqualityConstraint [] (the (customer_demand W customer product)))
              (filter (\<lambda>(customer, product). customer_demand W customer product \<noteq> None)
                 (itertools_product customers products))"
    using f unfolding c
    by (simp add: model_demand_constraints_eq model_supply_constraints_eq
        model_trips_constraints_eq model_trips_hub_to_hub_constraints_eq)
  show ?thesis
    unfolding m using o v' c' by (cases m) simp
qed

text \<open>
  C7, as the code has it. Construction succeeds for every instance: no dictionary lookup
  of the builders can raise. With no hubs the model has no variable and an empty
  objective, and its constraints are exactly the demand constraints, each with an empty
  left side (\<open>0 = customer.demand[product]\<close>), one per (customer, product) in a demand
  dictionary; with no hubs and no customers the model is empty. For a solution over the
  variables of the model, no hubs or no products give two empty trip lists, and no
  customers give an empty \<open>hub_to_customer\<close> list.
\<close>

theorem construction_succeeds_and_empty_instances:
  "\<exists>m. build_model W customers hubs products cap env = Inr m
     \<and> (hubs = [] \<longrightarrow>
          decision_variables m = [] \<and> objective m = []
          \<and> constraints m =
              map (\<lambda>(customer, product).
                     EqualityConstraint [] (the (customer_demand W customer product)))
                (filter (\<lambda>(customer, product). customer_demand W customer product \<noteq> None)
                   (itertools_product customers products)))
     \<and> (hubs = [] \<and> customers = [] \<longrightarrow>
          m = \<lparr>decision_variables = [], objective = [], constraints = []\<rparr>)
     \<and> (\<forall>solution. fst ` set solution \<subseteq> set (decision_variables m) \<longrightarrow>
          (hubs = [] \<or> products = [] \<longrightarrow>
             get_trips solution = \<lparr>hub_to_customer = [], hub_to_hub = []\<rparr>)
          \<and> (customers = [] \<longrightarrow> hub_to_customer (get_trips solution) = []))"
proof -
  obtain m where m: "build_model W customers hubs products cap env = Inr m"
    and v: "decision_variables m =
       map (new_FlightsCustomerHub W) (insertion_order (itertools_product customers hubs))
          @ map (new_ProductsMoveCustomerHub W)
              (insertion_order (itertools_product3 customers hubs products))
          @ map (new_FlightsHubHub W)
              (insertion_order (filter (\<lambda>(hub1, hub2). hub1 \<noteq> hub2)
                 (itertools_product hubs hubs)))
          @ map (new_ProductsMoveHubHub W)
              (insertion_order (filter (\<lambda>(hub1, hub2, product). hub1 \<noteq> hub2)
                 (itertools_product3 hubs hubs products)))"
    and ob: "Inr (objective m) = map_sum id objective (build_model W customers hubs products cap env)"
    and "\<exists>dc sc tc hc.
       model_demand_constraints W customers hubs products cap env = Inr dc
       \<and> model_supply_constraints W customers hubs products cap env = Inr sc
       \<and> model_trips_constraints W customers hubs products cap env = Inr tc
       \<and> model_trips_hub_to_hub_constraints W customers hubs products cap env = Inr hc
       \<and> constraints m = dc @ sc @ tc @ hc"
    by (rule build_model_closed)
  then obtain dc sc tc hc where
    f: "model_demand_constraints W customers hubs products cap env = Inr dc"
       "model_supply_constraints W customers hubs products cap env = Inr sc"
       "model_trips_constraints W customers hubs products cap env = Inr tc"
       "model_trips_hub_to_hub_constraints W customers hubs products cap env = Inr hc"
    and c: "constraints m = dc @ sc @ tc @ hc"
    by blast
  have no_hubs: "decision_variables m = [] \<and> objective m = []
          \<and> constraints m =
              map (\<lambda>(customer, product).
                     EqualityConstraint [] (the (customer_demand W customer product)))
                (filter (\<lambda>(customer, product). customer_demand W customer product \<noteq> None)
                   (itertools_product customers products))" if "hubs = []"
    using m unfolding that build_model_no_hubs by auto
  have empty: "m = \<lparr>decision_variables = [], objective = [], constraints = []\<rparr>"
    if "hubs = []" "customers = []"
    using no_hubs[OF that(1)] by (simp add: that(2))
  have trips: "(hubs = [] \<or> products = [] \<longrightarrow>
             get_trips solution = \<lparr>hub_to_customer = [], hub_to_hub = []\<rparr>)
          \<and> (customers = [] \<longrightarrow> hub_to_customer (get_trips solution) = [])"
    if sub: "fst ` set solution \<subseteq> set (decision_variables m)" for solution
  proof (intro conjI impI)
    assume e: "hubs = [] \<or> products = []"
    have "(\<forall>a b c. data variable \<noteq> ProductsMoveCustomerHub a b c)
        \<and> (\<forall>a b c. data variable \<noteq> ProductsMoveHubHub a b c)"
      if "(variable, value) \<in> set solution" for variable "value"
    proof -
      have "variable \<in> set (decision_variables m)"
        using sub that by force
      then show ?thesis
        using e unfolding v
        by (auto simp: itertools_product3_def new_FlightsCustomerHub_def new_FlightsHubHub_def)
    qed
    then show "get_trips solution = \<lparr>hub_to_customer = [], hub_to_hub = []\<rparr>"
      unfolding get_trips_eq
      by (auto intro!: concat_map_all_Nil split: variable_data.splits)
  next
    assume e: "customers = []"
    have "\<forall>a b c. data variable \<noteq> ProductsMoveCustomerHub a b c"
      if "(variable, value) \<in> set solution" for variable "value"
    proof -
      have "variable \<in> set (decision_variables m)"
        using sub that by force
      then show ?thesis
        using e unfolding v
        by (auto simp: itertools_product3_def new_FlightsHubHub_def new_ProductsMoveHubHub_def)
    qed
    then show "hub_to_customer (get_trips solution) = []"
      unfolding get_trips_eq
      by (auto intro!: concat_map_all_Nil split: variable_data.splits)
  qed
  show ?thesis
    using m no_hubs empty trips by blast
qed

text \<open>
  No hubs, one customer demanding 7 units: the model is the single constraint \<open>0 = 7\<close>.
  No products: a solution for the one flights variable yields no trip.
\<close>

theorem construction_succeeds_and_empty_instances_witness:
  "build_model (example_objects [0 \<mapsto> 7]) [0] [] [0] 5 example_environment =
     Inr \<lparr>decision_variables = [], objective = [], constraints = [EqualityConstraint [] 7]\<rparr>
   \<and> get_trips [(new_FlightsCustomerHub (example_objects [0 \<mapsto> 7]) (0, 0), 2)]
       = \<lparr>hub_to_customer = [], hub_to_hub = []\<rparr>"
proof -
  let ?W = "example_objects [0 \<mapsto> 7]"
  obtain m where m: "build_model ?W [0] [] [0] 5 example_environment = Inr m"
    and h: "([] :: nat list) = [] \<longrightarrow>
          decision_variables m = [] \<and> objective m = []
          \<and> constraints m =
              map (\<lambda>(customer, product).
                     EqualityConstraint [] (the (customer_demand ?W customer product)))
                (filter (\<lambda>(customer, product). customer_demand ?W customer product \<noteq> None)
                   (itertools_product [0] [0]))"
    using construction_succeeds_and_empty_instances
      [of ?W "[0]" "[]" "[0]" 5 example_environment]
    by blast
  have 1: "build_model ?W [0] [] [0] 5 example_environment =
     Inr \<lparr>decision_variables = [], objective = [], constraints = [EqualityConstraint [] 7]\<rparr>"
    unfolding m using h
    by (cases m) (simp add: itertools_product_def example_objects_def)
  obtain m' where m': "build_model ?W [0] [0] [] 5 example_environment = Inr m'"
    and t: "\<forall>solution. fst ` set solution \<subseteq> set (decision_variables m') \<longrightarrow>
          ([0 :: nat] = [] \<or> ([] :: nat list) = [] \<longrightarrow>
             get_trips solution = \<lparr>hub_to_customer = [], hub_to_hub = []\<rparr>)
          \<and> (([0] :: nat list) = [] \<longrightarrow> hub_to_customer (get_trips solution) = [])"
    using construction_succeeds_and_empty_instances
      [of ?W "[0]" "[0]" "[]" 5 example_environment]
    by blast
  have "new_FlightsCustomerHub ?W (0, 0) \<in> set (decision_variables m')"
    using model_decision_variables_eq[of ?W "[0]" "[0]" "[]" 5 example_environment, unfolded m']
    by auto
  then have 2: "get_trips [(new_FlightsCustomerHub ?W (0, 0), 2)]
       = \<lparr>hub_to_customer = [], hub_to_hub = []\<rparr>"
    using t by simp
  show ?thesis
    using 1 2 by blast
qed

text \<open>
  C7 as stated fails: with no hubs the constraint list is not empty when a customer has a
  demand, and with no customers the variable list is not empty when there are two hubs.
\<close>

theorem empty_instance_model_not_empty_counterexample:
  "build_model (example_objects [0 \<mapsto> 7]) [0] [] [0] 5 example_environment =
     Inr \<lparr>decision_variables = [], objective = [], constraints = [EqualityConstraint [] 7]\<rparr>
   \<and> map_sum id decision_variables
       (build_model (example_objects [0 \<mapsto> 7]) [] [0, 1] [0] 5 example_environment) =
     Inr [new_FlightsHubHub (example_objects [0 \<mapsto> 7]) (0, 1),
          new_FlightsHubHub (example_objects [0 \<mapsto> 7]) (1, 0),
          new_ProductsMoveHubHub (example_objects [0 \<mapsto> 7]) (0, 1, 0),
          new_ProductsMoveHubHub (example_objects [0 \<mapsto> 7]) (1, 0, 0)]"
  by (simp add: build_model_no_hubs model_decision_variables_eq)
     (simp add: itertools_product_def itertools_product3_def insertion_order_def
        example_objects_def)

section \<open>From a solution back to the demand\<close>

lemma delivered_get_trips:
  "delivered (hub_to_customer (get_trips solution)) customer product =
     (\<Sum>(variable, value)\<leftarrow>solution.
        case data variable of
          ProductsMoveCustomerHub customer' hub product' \<Rightarrow>
            if customer' = customer \<and> product' = product then value else 0
        | _ \<Rightarrow> 0)"
  unfolding get_trips_eq delivered_def
  by (induction solution) (auto split: variable_data.splits)

lemma solution_value_member:
  "distinct (map fst solution) \<Longrightarrow> (variable, value) \<in> set solution
     \<Longrightarrow> solution_value solution variable = value"
  by (simp add: solution_value_def)

lemma sum_list_solution_values:
  assumes "distinct (map fst solution)"
  shows "(\<Sum>(variable, value)\<leftarrow>solution. F variable value)
           = (\<Sum>variable\<leftarrow>map fst solution. F variable (solution_value solution variable))"
proof -
  have eq: "map (\<lambda>(variable, value). F variable value) solution
          = map (\<lambda>item. F (fst item) (solution_value solution (fst item))) solution"
    by (rule map_cong) (auto simp: solution_value_member[OF assms])
  show ?thesis
    unfolding eq by (simp add: comp_def)
qed

lemma set_model_variables:
  assumes "build_model W customers hubs products cap env = Inr m"
  shows "set (decision_variables m) =
     new_FlightsCustomerHub W ` (set customers \<times> set hubs)
     \<union> new_ProductsMoveCustomerHub W ` (set customers \<times> set hubs \<times> set products)
     \<union> new_FlightsHubHub W ` {(hub1, hub2). hub1 \<in> set hubs \<and> hub2 \<in> set hubs \<and> hub1 \<noteq> hub2}
     \<union> new_ProductsMoveHubHub W `
         {(hub1, hub2, product).
            hub1 \<in> set hubs \<and> hub2 \<in> set hubs \<and> product \<in> set products \<and> hub1 \<noteq> hub2}"
proof -
  have "decision_variables m =
       map (new_FlightsCustomerHub W) (insertion_order (itertools_product customers hubs))
          @ map (new_ProductsMoveCustomerHub W)
              (insertion_order (itertools_product3 customers hubs products))
          @ map (new_FlightsHubHub W)
              (insertion_order (filter (\<lambda>(hub1, hub2). hub1 \<noteq> hub2)
                 (itertools_product hubs hubs)))
          @ map (new_ProductsMoveHubHub W)
              (insertion_order (filter (\<lambda>(hub1, hub2, product). hub1 \<noteq> hub2)
                 (itertools_product3 hubs hubs products)))"
    using model_decision_variables_eq[of W customers hubs products cap env] assms by simp
  then show ?thesis
    by (simp only: set_append set_map set_insertion_order set_filter set_itertools_product
        set_itertools_product3) auto
qed

lemma data_new [simp]:
  "data (new_FlightsCustomerHub W (customer, hub)) = FlightsCustomerHub customer hub"
  "data (new_ProductsMoveCustomerHub W (customer, hub, product))
     = ProductsMoveCustomerHub customer hub product"
  "data (new_FlightsHubHub W (hub1, hub2)) = FlightsHubHub hub1 hub2"
  "data (new_ProductsMoveHubHub W (hub1, hub2, product)) = ProductsMoveHubHub hub1 hub2 product"
  by (simp_all add: new_FlightsCustomerHub_def new_ProductsMoveCustomerHub_def
      new_FlightsHubHub_def new_ProductsMoveHubHub_def)

lemma distinct_by_data: "distinct (map data variables) \<Longrightarrow> distinct variables"
  by (simp add: distinct_map)

lemma solution_value_Cons:
  "solution_value ((variable', value) # solution) variable =
     (if variable' = variable then value else solution_value solution variable)"
  by (simp add: solution_value_def)

lemma variable_neq_by_data: "data variable \<noteq> data variable' \<Longrightarrow> variable \<noteq> variable'"
  by auto

text \<open>
  C8, as the code has it. Take a built model whose hub list has no repeated hub, and a
  solution dictionary over exactly the variables of the model that satisfies every
  demand constraint. Then for every customer and product of the instance with an entry
  in the customer's \<open>demand\<close>, the quantities of the \<open>hub_to_customer\<close> trips to that
  customer of that product add up to \<open>customer.demand[product]\<close>.
\<close>

theorem delivered_equals_demand:
  assumes m: "build_model W customers hubs products cap env = Inr m"
    and dcs: "model_demand_constraints W customers hubs products cap env = Inr demand_constraints"
    and hubs: "distinct hubs"
    and keys: "distinct (map fst solution)"
    and dom: "set (map fst solution) = set (decision_variables m)"
    and sat: "\<forall>constraint \<in> set demand_constraints.
                satisfied (solution_value solution) constraint"
    and c: "customer \<in> set customers"
    and p: "product \<in> set products"
    and d: "customer_demand W customer product = Some quantity"
  shows "delivered (hub_to_customer (get_trips solution)) customer product = quantity"
proof -
  let ?\<sigma> = "solution_value solution"
  let ?f = "\<lambda>hub. new_ProductsMoveCustomerHub W (customer, hub, product)"
  let ?G = "\<lambda>variable.
        case data variable of
          ProductsMoveCustomerHub customer' hub product' \<Rightarrow>
            if customer' = customer \<and> product' = product then ?\<sigma> variable else 0
        | _ \<Rightarrow> 0"
  have "delivered (hub_to_customer (get_trips solution)) customer product
          = (\<Sum>variable\<leftarrow>map fst solution. ?G variable)"
    unfolding delivered_get_trips
    by (subst sum_list_solution_values[OF keys]) simp
  also have "\<dots> = sum ?G (set (decision_variables m))"
    by (simp only: sum_list_distinct_conv_sum_set[OF keys] dom)
  also have "\<dots> = sum ?G (?f ` set hubs)"
  proof (rule sum.mono_neutral_right)
    show "finite (set (decision_variables m))" by simp
    show "?f ` set hubs \<subseteq> set (decision_variables m)"
      unfolding set_model_variables[OF m] using c p by auto
    show "\<forall>variable \<in> set (decision_variables m) - ?f ` set hubs. ?G variable = 0"
      unfolding set_model_variables[OF m] by auto
  qed
  also have "\<dots> = sum (\<lambda>hub. ?\<sigma> (?f hub)) (set hubs)"
  proof -
    have "hub = hub'" if "?f hub = ?f hub'" for hub hub'
      using arg_cong[OF that, of data] by simp
    then have "inj_on ?f (set hubs)"
      by (auto simp: inj_on_def)
    moreover have "?G (?f hub) = ?\<sigma> (?f hub)" for hub
      by simp
    ultimately show ?thesis
      by (simp add: sum.reindex)
  qed
  also have "\<dots> = (\<Sum>hub\<leftarrow>hubs. ?\<sigma> (?f hub))"
    using hubs by (simp add: sum_list_distinct_conv_sum_set)
  also have "\<dots> = quantity"
  proof -
    have "EqualityConstraint (map (\<lambda>hub. (?f hub, 1)) hubs) quantity \<in> set demand_constraints"
      using dcs c p d unfolding model_demand_constraints_eq by force
    then have "satisfied ?\<sigma> (EqualityConstraint (map (\<lambda>hub. (?f hub, 1)) hubs) quantity)"
      using sat by blast
    then show ?thesis
      by (simp add: le_value_ones)
  qed
  finally show ?thesis .
qed

text \<open>
  One customer demanding 7 units, hubs 0 and 1: the solution sends 4 units from hub 0
  and 3 from hub 1, and the trips deliver 7.
\<close>

theorem delivered_equals_demand_witness:
  "delivered
     (hub_to_customer
        (get_trips
           [(new_FlightsCustomerHub (example_objects [0 \<mapsto> 7]) (0, 0), 1),
            (new_FlightsCustomerHub (example_objects [0 \<mapsto> 7]) (0, 1), 1),
            (new_ProductsMoveCustomerHub (example_objects [0 \<mapsto> 7]) (0, 0, 0), 4),
            (new_ProductsMoveCustomerHub (example_objects [0 \<mapsto> 7]) (0, 1, 0), 3),
            (new_FlightsHubHub (example_objects [0 \<mapsto> 7]) (0, 1), 0),
            (new_FlightsHubHub (example_objects [0 \<mapsto> 7]) (1, 0), 0),
            (new_ProductsMoveHubHub (example_objects [0 \<mapsto> 7]) (0, 1, 0), 0),
            (new_ProductsMoveHubHub (example_objects [0 \<mapsto> 7]) (1, 0, 0), 0)]))
     0 0 = 7"
proof -
  let ?W = "example_objects [0 \<mapsto> 7]"
  let ?solution =
          "[(new_FlightsCustomerHub ?W (0, 0), 1 :: int),
            (new_FlightsCustomerHub ?W (0, 1), 1),
            (new_ProductsMoveCustomerHub ?W (0, 0, 0), 4),
            (new_ProductsMoveCustomerHub ?W (0, 1, 0), 3),
            (new_FlightsHubHub ?W (0, 1), 0),
            (new_FlightsHubHub ?W (1, 0), 0),
            (new_ProductsMoveHubHub ?W (0, 1, 0), 0),
            (new_ProductsMoveHubHub ?W (1, 0, 0), 0)]"
  obtain m where m: "build_model ?W [0] [0, 1] [0] 5 example_environment = Inr m"
    by (rule build_model_variables)
  have vars: "decision_variables m = map fst ?solution"
    using model_decision_variables_eq[of ?W "[0]" "[0, 1]" "[0]" 5 example_environment, unfolded m]
    by (simp add: insertion_order_def itertools_product_def itertools_product3_def)
  have dcs: "model_demand_constraints ?W [0] [0, 1] [0] 5 example_environment =
      Inr [EqualityConstraint
              [(new_ProductsMoveCustomerHub ?W (0, 0, 0), 1),
               (new_ProductsMoveCustomerHub ?W (0, 1, 0), 1)] 7]"
    by (simp add: model_demand_constraints_eq itertools_product_def example_objects_def)
  have hubs: "distinct [0 :: nat, 1]" by simp
  have keys: "distinct (map fst ?solution)"
    by (rule distinct_by_data) simp
  have dom: "set (map fst ?solution) = set (decision_variables m)"
    by (simp only: vars)
  have sat: "\<forall>constraint \<in> set [EqualityConstraint
              [(new_ProductsMoveCustomerHub ?W (0, 0, 0), 1),
               (new_ProductsMoveCustomerHub ?W (0, 1, 0), 1)] 7].
                satisfied (solution_value ?solution) constraint"
    by (simp add: le_value_def solution_value_Cons variable_neq_by_data)
  have d: "customer_demand ?W 0 0 = Some 7"
    by (simp add: example_objects_def)
  show ?thesis
    by (rule delivered_equals_demand[OF m dcs hubs keys dom sat _ _ d]) simp_all
qed

text \<open>
  C8 as stated fails for a product the customer has no entry for. The model has no demand
  constraint for the pair, so every assignment satisfies the demand constraints; the
  assignment below gives the pair's variable the value 5, the trips deliver 5, and the
  customer's demand for the product is 0.
\<close>

theorem delivered_without_demand_entry_counterexample:
  "model_demand_constraints (example_objects Map.empty) [0] [0] [0] 5 example_environment = Inr []
   \<and> map_sum id decision_variables
       (build_model (example_objects Map.empty) [0] [0] [0] 5 example_environment)
     = Inr [new_FlightsCustomerHub (example_objects Map.empty) (0, 0),
            new_ProductsMoveCustomerHub (example_objects Map.empty) (0, 0, 0)]
   \<and> delivered
       (hub_to_customer
          (get_trips
             [(new_FlightsCustomerHub (example_objects Map.empty) (0, 0), 1),
              (new_ProductsMoveCustomerHub (example_objects Map.empty) (0, 0, 0), 5)]))
       0 0 = 5
   \<and> demand_of (example_objects Map.empty) 0 0 = 0"
  by (simp add: model_demand_constraints_eq model_decision_variables_eq delivered_get_trips)
     (simp add: itertools_product_def itertools_product3_def insertion_order_def
        example_objects_def demand_of_def)

end
